theory Spec2Isabelle
  imports Main
begin

section \<open>Layers of the tensor library and their shape rules\<close>

text \<open>
  The repository (Models/ResNet.py) assembles a residual network out of the layers of an
  external tensor library. The layers are data here, each with the constructor arguments
  the source passes; a shape is the list of a tensor's dimension sizes.
  \<^item> \<open>Conv2d in_channels out_channels kernel_size stride padding\<close> (square kernel, no bias)
  \<^item> \<open>BatchNorm2d num_features\<close>
  \<^item> \<open>MaxPool2d kernel_size stride padding\<close>
  \<^item> \<open>AdaptiveAvgPool2d out_height out_width\<close>
  \<^item> \<open>Linear in_features out_features\<close>
\<close>

type_synonym shape = "nat list"

datatype layer =
    Conv2d nat nat nat nat nat
  | BatchNorm2d nat
  | ReLU
  | MaxPool2d nat nat nat
  | AdaptiveAvgPool2d nat nat
  | Linear nat nat

text \<open>
  Errors are values. \<open>IndexError\<close> and \<open>TypeError\<close> are Python's own; \<open>LayerShapeError l s\<close>
  is the library refusing an input of shape \<open>s\<close> at layer \<open>l\<close>; \<open>MergeShapeError x i\<close> is
  the library refusing the in-place addition \<open>x += i\<close> of a tensor of shape \<open>i\<close> into one
  of shape \<open>x\<close>.
\<close>

datatype error =
    IndexError
  | TypeError
  | LayerShapeError layer shape
  | MergeShapeError shape shape

text \<open>
  Size of one spatial axis after a sliding window of width \<open>k\<close>, step \<open>s\<close> and padding
  \<open>p\<close> on both sides: \<open>floor ((n + 2 p - k) / s) + 1\<close>. The library refuses a step of
  zero and a window wider than the padded axis.
\<close>

definition window_out :: "nat \<Rightarrow> nat \<Rightarrow> nat \<Rightarrow> nat \<Rightarrow> nat option" where
  "window_out n k s p =
     (if s = 0 \<or> n + 2 * p < k then None else Some ((n + 2 * p - k) div s + 1))"

text \<open>
  The shape rules. The first argument is the module's \<open>training\<close> flag, which is true for
  every freshly built module and which \<open>train ()\<close> and \<open>eval ()\<close> set for a module and all
  its parts; ResNet.py itself never changes it.
  \<^item> A convolution takes a batch \<open>(n, c, h, w)\<close> or a single image \<open>(c, h, w)\<close> with
    \<open>c = in_channels\<close>; it refuses a convolution built with no input or no output
    channels.
  \<^item> A normalisation takes a batch \<open>(n, c, h, w)\<close> only. In training mode it first
    refuses an input with a single value per channel (\<open>n * h * w = 1\<close>), then, in either
    mode, one whose channel count is not \<open>num_features\<close>.
  \<^item> The linear layer acts on the last axis.
\<close>

fun layer_shape :: "bool \<Rightarrow> layer \<Rightarrow> shape \<Rightarrow> error + shape" where
  "layer_shape training (Conv2d ci co k s p) [n, c, h, w] =
     (if ci = 0 \<or> co = 0 \<or> c \<noteq> ci
      then Inl (LayerShapeError (Conv2d ci co k s p) [n, c, h, w])
      else (case (window_out h k s p, window_out w k s p) of
              (Some h', Some w') \<Rightarrow> Inr [n, co, h', w']
            | _ \<Rightarrow> Inl (LayerShapeError (Conv2d ci co k s p) [n, c, h, w])))"
| "layer_shape training (Conv2d ci co k s p) [c, h, w] =
     (if ci = 0 \<or> co = 0 \<or> c \<noteq> ci
      then Inl (LayerShapeError (Conv2d ci co k s p) [c, h, w])
      else (case (window_out h k s p, window_out w k s p) of
              (Some h', Some w') \<Rightarrow> Inr [co, h', w']
            | _ \<Rightarrow> Inl (LayerShapeError (Conv2d ci co k s p) [c, h, w])))"
| "layer_shape training (Conv2d ci co k s p) sh = Inl (LayerShapeError (Conv2d ci co k s p) sh)"
| "layer_shape training (BatchNorm2d f) [n, c, h, w] =
     (if training \<and> n * h * w = 1 then Inl (LayerShapeError (BatchNorm2d f) [n, c, h, w])
      else if c = f then Inr [n, c, h, w]
      else Inl (LayerShapeError (BatchNorm2d f) [n, c, h, w]))"
| "layer_shape training (BatchNorm2d f) sh = Inl (LayerShapeError (BatchNorm2d f) sh)"
| "layer_shape training ReLU sh = Inr sh"
| "layer_shape training (MaxPool2d k s p) [n, c, h, w] =
     (case (window_out h k s p, window_out w k s p) of
        (Some h', Some w') \<Rightarrow> Inr [n, c, h', w']
      | _ \<Rightarrow> Inl (LayerShapeError (MaxPool2d k s p) [n, c, h, w]))"
| "layer_shape training (MaxPool2d k s p) [c, h, w] =
     (case (window_out h k s p, window_out w k s p) of
        (Some h', Some w') \<Rightarrow> Inr [c, h', w']
      | _ \<Rightarrow> Inl (LayerShapeError (MaxPool2d k s p) [c, h, w]))"
| "layer_shape training (MaxPool2d k s p) sh = Inl (LayerShapeError (MaxPool2d k s p) sh)"
| "layer_shape training (AdaptiveAvgPool2d oh ow) [n, c, h, w] =
     (if c = 0 \<or> h = 0 \<or> w = 0
      then Inl (LayerShapeError (AdaptiveAvgPool2d oh ow) [n, c, h, w])
      else Inr [n, c, oh, ow])"
| "layer_shape training (AdaptiveAvgPool2d oh ow) [c, h, w] =
     (if c = 0 \<or> h = 0 \<or> w = 0
      then Inl (LayerShapeError (AdaptiveAvgPool2d oh ow) [c, h, w])
      else Inr [c, oh, ow])"
| "layer_shape training (AdaptiveAvgPool2d oh ow) sh =
     Inl (LayerShapeError (AdaptiveAvgPool2d oh ow) sh)"
| "layer_shape training (Linear fi fo) sh =
     (if sh \<noteq> [] \<and> last sh = fi then Inr (butlast sh @ [fo])
      else Inl (LayerShapeError (Linear fi fo) sh))"

text \<open>\<open>x.squeeze()\<close> with no argument drops every axis of size one.\<close>

definition squeeze_shape :: "shape \<Rightarrow> shape" where
  "squeeze_shape sh = filter (\<lambda>d. d \<noteq> 1) sh"

text \<open>
  \<open>x += identity\<close> is an in-place addition: the result has the shape of \<open>x\<close>, and the
  right operand is broadcast to it. Aligned at the last axis, each axis of the right
  operand must have the size of the corresponding axis of \<open>x\<close> or size one; \<open>x\<close> itself is
  never enlarged.
\<close>

definition broadcastable_to :: "shape \<Rightarrow> shape \<Rightarrow> bool" where
  "broadcastable_to i x =
     (length i \<le> length x \<and>
      list_all2 (\<lambda>di dx. di = dx \<or> di = 1) i (drop (length x - length i) x))"

definition iadd_shape :: "shape \<Rightarrow> shape \<Rightarrow> error + shape" where
  "iadd_shape x i = (if broadcastable_to i x then Inr x else Inl (MergeShapeError x i))"

section \<open>Tensors as the computations that produce them\<close>

text \<open>
  A tensor is represented by the calls that produced it from the input of the forward
  pass, so that the order of the calls can be read off the result. \<open>Raise e t\<close> is a call
  on \<open>t\<close> that raises \<open>e\<close> whatever \<open>t\<close> is; \<open>Call f t\<close> is the call of a module that is
  not of this repository, known only by what it does to shapes in either mode.
  \<open>shape_of\<close> runs the calls on an input shape, the left operand of an addition first,
  and stops at the first call that raises.
\<close>

type_synonym forward_fn = "bool \<Rightarrow> shape \<Rightarrow> error + shape"

datatype tensor =
    Input
  | Apply layer tensor
  | IAdd tensor tensor
  | Squeeze tensor
  | Raise error tensor
  | Call forward_fn tensor

fun shape_of :: "bool \<Rightarrow> shape \<Rightarrow> tensor \<Rightarrow> error + shape" where
  "shape_of training s Input = Inr s"
| "shape_of training s (Apply l t) =
     (case shape_of training s t of Inl e \<Rightarrow> Inl e | Inr u \<Rightarrow> layer_shape training l u)"
| "shape_of training s (IAdd a b) =
     (case shape_of training s a of
        Inl e \<Rightarrow> Inl e
      | Inr u \<Rightarrow> (case shape_of training s b of
                   Inl e \<Rightarrow> Inl e
                 | Inr v \<Rightarrow> iadd_shape u v))"
| "shape_of training s (Squeeze t) =
     (case shape_of training s t of Inl e \<Rightarrow> Inl e | Inr u \<Rightarrow> Inr (squeeze_shape u))"
| "shape_of training s (Raise e t) =
     (case shape_of training s t of Inl e' \<Rightarrow> Inl e' | Inr u \<Rightarrow> Inl e)"
| "shape_of training s (Call f t) =
     (case shape_of training s t of Inl e \<Rightarrow> Inl e | Inr u \<Rightarrow> f training u)"

text \<open>\<open>x.clone()\<close> is a copy with the same value.\<close>

definition clone :: "tensor \<Rightarrow> tensor" where
  "clone x = x"

text \<open>\<open>nn.Sequential(*ls)(x)\<close>: the modules applied in order.\<close>

definition Sequential :: "layer list \<Rightarrow> tensor \<Rightarrow> tensor" where
  "Sequential ls x = foldl (\<lambda>t l. Apply l t) x ls"

section \<open>ResNetDeepBlock\<close>

record ResNetDeepBlock =
  expansion :: nat
  conv1 :: layer
  bn1 :: layer
  conv2 :: layer
  bn2 :: layer
  conv3 :: layer
  bn3 :: layer
  relu :: layer
  identity_downsample :: "layer list option"
  stride :: nat

definition ResNetDeepBlock_init ::
  "nat \<Rightarrow> nat \<Rightarrow> layer list option \<Rightarrow> nat \<Rightarrow> ResNetDeepBlock" where
  "ResNetDeepBlock_init in_ch intermediate_channels downsample strd =
     (let expn = 4 in
      \<lparr> expansion = expn,
        conv1 = Conv2d in_ch intermediate_channels 1 1 0,
        bn1 = BatchNorm2d intermediate_channels,
        conv2 = Conv2d intermediate_channels intermediate_channels 3 strd 1,
        bn2 = BatchNorm2d intermediate_channels,
        conv3 = Conv2d intermediate_channels (intermediate_channels * expn) 1 1 0,
        bn3 = BatchNorm2d (intermediate_channels * expn),
        relu = ReLU,
        identity_downsample = downsample,
        stride = strd \<rparr>)"

definition ResNetDeepBlock_forward :: "ResNetDeepBlock \<Rightarrow> tensor \<Rightarrow> tensor" where
  "ResNetDeepBlock_forward self x0 =
     (let identity = clone x0;
          x = Apply (conv1 self) x0;
          x = Apply (bn1 self) x;
          x = Apply (relu self) x;
          x = Apply (conv2 self) x;
          x = Apply (bn2 self) x;
          x = Apply (relu self) x;
          x = Apply (conv3 self) x;
          x = Apply (bn3 self) x;
          identity = (case identity_downsample self of
                        None \<Rightarrow> identity
                      | Some ds \<Rightarrow> Sequential ds identity);
          x = IAdd x identity;
          x = Apply (relu self) x
      in x)"

section \<open>ResNetBlock\<close>

record ResNetBlock =
  conv_block_1 :: "layer list"
  conv_block_2 :: "layer list"
  block_relu :: layer
  identity_downscale :: "layer list option"

definition ResNetBlock_init ::
  "nat \<Rightarrow> nat \<Rightarrow> nat \<Rightarrow> layer list option \<Rightarrow> ResNetBlock" where
  "ResNetBlock_init in_ch out_ch strd downscale =
     \<lparr> conv_block_1 = [Conv2d in_ch out_ch 3 strd 1, BatchNorm2d out_ch, ReLU],
       conv_block_2 = [Conv2d out_ch out_ch 3 1 1, BatchNorm2d out_ch],
       block_relu = ReLU,
       identity_downscale = downscale \<rparr>"

text \<open>
  \<open>if self.identity_downscale:\<close> tests the truth value of the field: \<open>None\<close> is false, and
  an \<open>nn.Sequential\<close> is true exactly when it holds at least one module.
\<close>

definition truthy :: "layer list option \<Rightarrow> bool" where
  "truthy m = (case m of None \<Rightarrow> False | Some ls \<Rightarrow> ls \<noteq> [])"

definition ResNetBlock_forward :: "ResNetBlock \<Rightarrow> tensor \<Rightarrow> tensor" where
  "ResNetBlock_forward self x0 =
     (let identity = clone x0;
          x = Sequential (conv_block_1 self) x0;
          x = Sequential (conv_block_2 self) x;
          identity = (if truthy (identity_downscale self)
                      then Sequential (the (identity_downscale self)) identity
                      else identity);
          x = IAdd x identity;
          x = Apply (block_relu self) x
      in x)"

section \<open>Block classes and the calls made to them\<close>

text \<open>
  The \<open>block\<close> argument of the network and of its stage builder is a class. It may be one
  of the two classes of the repository or any other class; another class is given by its
  \<open>__name__\<close> and by its constructor, which for each call either raises or returns an
  instance, known by what its forward pass does to shapes.

  The stage builder calls the class in three ways:
  \<^item> \<open>Positional a b p s\<close> is \<open>block (a, b, p, s)\<close>, four arguments by position, \<open>p\<close> the
    projection or \<open>None\<close> and \<open>s\<close> the stride;
  \<^item> \<open>Keywords a b s p\<close> is \<open>block (a, b, stride=s, identity_downscale=p)\<close>;
  \<^item> \<open>Defaults a b\<close> is \<open>block (a, b)\<close>.
\<close>

datatype call =
    Positional nat nat "layer list option" nat
  | Keywords nat nat nat "layer list option"
  | Defaults nat nat

datatype block_class =
    ResNetBlockClass
  | ResNetDeepBlockClass
  | OtherClass string "call \<Rightarrow> error + forward_fn"

fun class_name :: "block_class \<Rightarrow> string" where
  "class_name ResNetBlockClass = ''ResNetBlock''"
| "class_name ResNetDeepBlockClass = ''ResNetDeepBlock''"
| "class_name (OtherClass name ctor) = name"

text \<open>
  A block of a stage is an instance of the class. \<open>Misbound a b p s\<close> is the instance that
  \<open>ResNetBlock (a, b, p, s)\<close> returns: the parameters of \<open>ResNetBlock\<close> are
  \<open>(in_channels, out_channels, stride, identity_downscale)\<close>, so the third position binds
  the projection (or \<open>None\<close>) to \<open>stride\<close> and the fourth binds the integer to
  \<open>identity_downscale\<close>. The constructor raises nothing; the first convolution of the
  instance holds a stride that is no integer.
\<close>

datatype block =
    Basic ResNetBlock
  | Deep ResNetDeepBlock
  | Misbound nat nat "layer list option" nat
  | Foreign forward_fn

text \<open>
  The three calls on each class. \<open>ResNetDeepBlock\<close> has the parameters
  \<open>(in_channels, intermediate_channels, identity_downsample, stride)\<close> and no parameter
  named \<open>identity_downscale\<close>: Python raises a TypeError on that keyword.
\<close>

fun instantiate :: "block_class \<Rightarrow> call \<Rightarrow> error + block" where
  "instantiate ResNetBlockClass (Positional a b p s) = Inr (Misbound a b p s)"
| "instantiate ResNetBlockClass (Keywords a b s p) = Inr (Basic (ResNetBlock_init a b s p))"
| "instantiate ResNetBlockClass (Defaults a b) = Inr (Basic (ResNetBlock_init a b 1 None))"
| "instantiate ResNetDeepBlockClass (Positional a b p s) =
     Inr (Deep (ResNetDeepBlock_init a b p s))"
| "instantiate ResNetDeepBlockClass (Keywords a b s p) = Inl TypeError"
| "instantiate ResNetDeepBlockClass (Defaults a b) =
     Inr (Deep (ResNetDeepBlock_init a b None 1))"
| "instantiate (OtherClass name ctor) c =
     (case ctor c of Inl e \<Rightarrow> Inl e | Inr f \<Rightarrow> Inr (Foreign f))"

text \<open>
  The forward pass of a block. That of a \<open>Misbound\<close> instance clones its input and calls
  its first convolution, which raises a TypeError on the stride it holds.
\<close>

fun block_forward :: "block \<Rightarrow> tensor \<Rightarrow> tensor" where
  "block_forward (Basic b) x = ResNetBlock_forward b x"
| "block_forward (Deep b) x = ResNetDeepBlock_forward b x"
| "block_forward (Misbound a b p s) x = Raise TypeError x"
| "block_forward (Foreign f) x = Call f x"

text \<open>A stage is an \<open>nn.Sequential\<close> of blocks.\<close>

definition stage_forward :: "block list \<Rightarrow> tensor \<Rightarrow> tensor" where
  "stage_forward bs x = foldl (\<lambda>t b. block_forward b t) x bs"

section \<open>ResNet\<close>

text \<open>
  The loop \<open>for i in range (k): layers.append (block (a, b))\<close>: every round makes the
  same call, whose outcome is the second argument, and appends the instance; a call that
  raises ends the loop.
\<close>

fun append_blocks :: "nat \<Rightarrow> error + block \<Rightarrow> block list \<Rightarrow> error + block list" where
  "append_blocks 0 made layers = Inr layers"
| "append_blocks (Suc k) made layers =
     (case made of Inl e \<Rightarrow> Inl e | Inr b \<Rightarrow> append_blocks k made (layers @ [b]))"

text \<open>
  \<open>create_residual_layer\<close> reads and, in the deep branch, writes the field
  \<open>self.in_channels\<close>: the model takes its value as the first argument and returns the
  value it has when the method returns or raises, with the stage or the error. The block
  count is a Python integer, and \<open>range (c - 1)\<close> is empty for \<open>c \<le> 1\<close>. The branch is
  chosen by the flag \<open>deep\<close>; the calls go to \<open>block\<close>, whatever the flag.
\<close>

definition create_residual_layer ::
  "nat \<Rightarrow> block_class \<Rightarrow> nat \<Rightarrow> int \<Rightarrow> nat \<Rightarrow> bool \<Rightarrow> nat \<times> (error + block list)" where
  "create_residual_layer self_in_channels blk out_channels num_residual_blocks strd deep =
     (if deep then
        (let identity_downsample =
               (if strd \<noteq> 1 \<or> self_in_channels \<noteq> out_channels * 4
                then Some [Conv2d self_in_channels (out_channels * 4) 1 strd 0,
                           BatchNorm2d (out_channels * 4)]
                else None)
         in case instantiate blk
                   (Positional self_in_channels out_channels identity_downsample strd) of
              Inl e \<Rightarrow> (self_in_channels, Inl e)
            | Inr first \<Rightarrow>
                (let self_in_channels' = out_channels * 4
                 in (self_in_channels',
                     append_blocks (nat (num_residual_blocks - 1))
                       (instantiate blk (Defaults self_in_channels' out_channels)) [first])))
      else
        (let in_ch = (if out_channels \<noteq> 64 then out_channels div 2 else out_channels);
             downscale =
               (if strd \<noteq> 1
                then Some [Conv2d in_ch out_channels 1 strd 0, BatchNorm2d out_channels]
                else None)
         in case instantiate blk (Keywords in_ch out_channels strd downscale) of
              Inl e \<Rightarrow> (self_in_channels, Inl e)
            | Inr first \<Rightarrow>
                (self_in_channels,
                 append_blocks (nat (num_residual_blocks - 1))
                   (instantiate blk (Defaults out_channels out_channels)) [first])))"

record ResNet =
  in_channels :: nat
  initial_layers :: "layer list"
  layer_64 :: "block list"
  layer_128 :: "block list"
  layer_256 :: "block list"
  layer_512 :: "block list"
  global_avg_pool :: layer
  fc :: layer

text \<open>\<open>layers[i]\<close> for a constant index \<open>i \<ge> 0\<close>: an IndexError past the end of the list.\<close>

definition py_index :: "'a list \<Rightarrow> nat \<Rightarrow> error + 'a" where
  "py_index xs i = (if i < length xs then Inr (xs ! i) else Inl IndexError)"

definition bind_err :: "error + 'a \<Rightarrow> ('a \<Rightarrow> error + 'b) \<Rightarrow> error + 'b" where
  "bind_err m f = (case m of Inl e \<Rightarrow> Inl e | Inr v \<Rightarrow> f v)"

text \<open>
  The constructor. Channel and class counts are sizes, hence natural numbers. An error of
  a stage builder call ends the construction: no network is returned.
\<close>

definition ResNet_init :: "nat \<Rightarrow> nat \<Rightarrow> int list \<Rightarrow> block_class \<Rightarrow> error + ResNet" where
  "ResNet_init in_ch num_classes layers blk =
     (let c0 = 64;
          stem = [Conv2d in_ch 64 7 2 3, BatchNorm2d 64, MaxPool2d 3 2 1, ReLU];
          deep = (class_name blk = ''ResNetDeepBlock'')
      in
      bind_err (py_index layers 0) (\<lambda>n0.
      case create_residual_layer c0 blk 64 n0 1 deep of (c1, r64) \<Rightarrow>
      bind_err r64 (\<lambda>l64.
      bind_err (py_index layers 1) (\<lambda>n1.
      case create_residual_layer c1 blk 128 n1 2 deep of (c2, r128) \<Rightarrow>
      bind_err r128 (\<lambda>l128.
      bind_err (py_index layers 2) (\<lambda>n2.
      case create_residual_layer c2 blk 256 n2 2 deep of (c3, r256) \<Rightarrow>
      bind_err r256 (\<lambda>l256.
      bind_err (py_index layers 3) (\<lambda>n3.
      case create_residual_layer c3 blk 512 n3 2 deep of (c4, r512) \<Rightarrow>
      bind_err r512 (\<lambda>l512.
      Inr \<lparr> in_channels = c4,
            initial_layers = stem,
            layer_64 = l64,
            layer_128 = l128,
            layer_256 = l256,
            layer_512 = l512,
            global_avg_pool = AdaptiveAvgPool2d 1 1,
            fc = Linear (if class_name blk = ''ResNetDeepBlock'' then 512 * 4 else 512)
                   num_classes \<rparr>)))))))))"

definition ResNet_forward :: "ResNet \<Rightarrow> tensor \<Rightarrow> tensor" where
  "ResNet_forward self x0 =
     (let x = Sequential (initial_layers self) x0;
          x = stage_forward (layer_64 self) x;
          x = stage_forward (layer_128 self) x;
          x = stage_forward (layer_256 self) x;
          x = stage_forward (layer_512 self) x;
          x = Apply (global_avg_pool self) x;
          x = Squeeze x;
          x = Apply (fc self) x
      in x)"

text \<open>
  The script at the end of the file: build a model, call it on a tensor, take the shape of
  the output. The first argument is the mode the model is called in.
\<close>

definition ResNet_output_shape ::
  "bool \<Rightarrow> nat \<Rightarrow> nat \<Rightarrow> int list \<Rightarrow> block_class \<Rightarrow> shape \<Rightarrow> error + shape" where
  "ResNet_output_shape training in_ch num_classes layers blk sh =
     (case ResNet_init in_ch num_classes layers blk of
        Inl e \<Rightarrow> Inl e
      | Inr model \<Rightarrow> shape_of training sh (ResNet_forward model Input))"

section \<open>Vocabulary of the statements\<close>

text \<open>
  The convolutions and the pooling of this network all have the form kernel \<open>2 p + 1\<close>
  with padding \<open>p\<close>, for which an axis of positive size \<open>n\<close> read in steps of \<open>s\<close> keeps
  \<open>strided n s\<close> cells, the quotient \<open>n / s\<close> rounded up. The stem and the stages
  together halve an axis five times.
\<close>

definition strided :: "nat \<Rightarrow> nat \<Rightarrow> nat" where
  "strided n s = (n - 1) div s + 1"

definition reduced :: "nat \<Rightarrow> nat" where
  "reduced h = strided (strided (strided (strided (strided h 2) 2) 2) 2) 2"

text \<open>The identity path of a block: the input itself, or its projection when one is given.\<close>

definition identity_path :: "layer list option \<Rightarrow> tensor \<Rightarrow> tensor" where
  "identity_path p x = (case p of None \<Rightarrow> x | Some ds \<Rightarrow> Sequential ds x)"

text \<open>
  The factor between the width a stage is built with and the number of channels it puts
  out, decided the way the source decides the width of the classifier,
  \<open>512 * 4 if block.__name__ == "ResNetDeepBlock" else 512\<close>.
\<close>

definition expansion_factor :: "block_class \<Rightarrow> nat" where
  "expansion_factor blk = (if class_name blk = ''ResNetDeepBlock'' then 4 else 1)"

text \<open>The two block classes of the repository.\<close>

definition own_class :: "block_class \<Rightarrow> bool" where
  "own_class blk = (blk = ResNetBlockClass \<or> blk = ResNetDeepBlockClass)"

text \<open>
  A normalisation layer in the given mode accepts a batch of \<open>n\<close> maps of \<open>h\<close> by \<open>w\<close>
  cells: in training mode it needs more than one value per channel.
\<close>

definition normalisable :: "bool \<Rightarrow> nat \<Rightarrow> nat \<Rightarrow> nat \<Rightarrow> bool" where
  "normalisable training n h w = (\<not> (training \<and> n * h * w = 1))"



section \<open>Shapes through the layers\<close>

lemma window_out_3: "0 < n \<Longrightarrow> 0 < s \<Longrightarrow> window_out n 3 s (Suc 0) = Some (strided n s)"
  by (simp add: window_out_def strided_def)

lemma window_out_1: "0 < n \<Longrightarrow> 0 < s \<Longrightarrow> window_out n (Suc 0) s 0 = Some (strided n s)"
  by (simp add: window_out_def strided_def)

lemma window_out_7: "0 < n \<Longrightarrow> window_out n 7 2 3 = Some (strided n 2)"
  by (simp add: window_out_def strided_def)

lemma strided_pos: "0 < strided n s"
  by (simp add: strided_def)

lemma strided_one: "0 < n \<Longrightarrow> strided n (Suc 0) = n"
  by (simp add: strided_def)

lemma strided_of_one: "strided (Suc 0) s = Suc 0"
  by (simp add: strided_def)

lemma strided_less: "2 \<le> s \<Longrightarrow> 2 \<le> n \<Longrightarrow> strided n s < n"
proof -
  assume s: "2 \<le> s" and n: "2 \<le> n"
  then have "(n - 1) div s < n - 1"
    by (intro div_less_dividend) simp_all
  with n show ?thesis by (simp add: strided_def)
qed

lemma normalisable_eval: "normalisable False n h w"
  by (simp add: normalisable_def)

lemma normalisable_strided:
  assumes "normalisable training n (strided h s) (strided w s)"
  shows "normalisable training n h w"
proof -
  have "n * strided h s * strided w s = 1" if "n * h * w = 1"
    using that by (simp add: strided_of_one)
  with assms show ?thesis
    unfolding normalisable_def by blast
qed

lemma norm_shape:
  assumes "normalisable training n h w"
  shows "layer_shape training (BatchNorm2d c) [n, c, h, w] = Inr [n, c, h, w]"
  using assms by (simp add: normalisable_def)

lemma iadd_shape_same: "iadd_shape x x = Inr x"
  by (simp add: iadd_shape_def broadcastable_to_def list_all2_same)

lemma merged_shape:
  "shape_of tr sh a = Inr u \<Longrightarrow> shape_of tr sh b = Inr u \<Longrightarrow>
   shape_of tr sh (Apply ReLU (IAdd a b)) = Inr u"
  by (simp add: iadd_shape_same)

lemma merge_error:
  "shape_of tr sh a = Inr u \<Longrightarrow> shape_of tr sh b = Inr v \<Longrightarrow> iadd_shape u v = Inl e \<Longrightarrow>
   shape_of tr sh (Apply ReLU (IAdd a b)) = Inl e"
  by simp

lemma apply_shape:
  "shape_of tr sh x = Inr u \<Longrightarrow> layer_shape tr l u = r \<Longrightarrow> shape_of tr sh (Apply l x) = r"
  by simp

lemma projection_shape:
  assumes x: "shape_of tr sh x = Inr [n, i, h, w]" and pos: "0 < h" "0 < w" "0 < s"
    and ch: "0 < i" "0 < oc" and nz: "normalisable tr n (strided h s) (strided w s)"
  shows "shape_of tr sh (identity_path (Some [Conv2d i oc 1 s 0, BatchNorm2d oc]) x) =
         Inr [n, oc, strided h s, strided w s]"
proof -
  have c: "shape_of tr sh (Apply (Conv2d i oc 1 s 0) x) = Inr [n, oc, strided h s, strided w s]"
    using x pos ch by (simp add: window_out_1)
  have "shape_of tr sh (Apply (BatchNorm2d oc) (Apply (Conv2d i oc 1 s 0) x)) =
        Inr [n, oc, strided h s, strided w s]"
    by (rule apply_shape [OF c norm_shape [OF nz]])
  then show ?thesis
    by (simp add: identity_path_def Sequential_def)
qed

section \<open>The two blocks\<close>

lemma ResNetBlock_unfolded:
  "ResNetBlock_forward (ResNetBlock_init i oc s p) x =
     Apply ReLU
       (IAdd
          (Apply (BatchNorm2d oc) (Apply (Conv2d oc oc 3 1 1)
             (Apply ReLU (Apply (BatchNorm2d oc) (Apply (Conv2d i oc 3 s 1) x)))))
          (identity_path p x))"
  by (cases p) (simp_all add: ResNetBlock_forward_def ResNetBlock_init_def Sequential_def
      truthy_def clone_def identity_path_def)

lemma ResNetDeepBlock_unfolded:
  "ResNetDeepBlock_forward (ResNetDeepBlock_init i m p s) x =
     Apply ReLU
       (IAdd
          (Apply (BatchNorm2d (m * 4)) (Apply (Conv2d m (m * 4) 1 1 0)
             (Apply ReLU (Apply (BatchNorm2d m) (Apply (Conv2d m m 3 s 1)
                (Apply ReLU (Apply (BatchNorm2d m) (Apply (Conv2d i m 1 1 0) x))))))))
          (identity_path p x))"
  by (cases p) (simp_all add: ResNetDeepBlock_forward_def ResNetDeepBlock_init_def
      clone_def identity_path_def Let_def)

lemma basic_main_shape:
  assumes x: "shape_of tr sh x = Inr [n, i, h, w]" and pos: "0 < h" "0 < w" "0 < s"
    and ch: "0 < i" "0 < oc" and nz: "normalisable tr n (strided h s) (strided w s)"
  shows "shape_of tr sh (Apply (BatchNorm2d oc) (Apply (Conv2d oc oc 3 1 1)
             (Apply ReLU (Apply (BatchNorm2d oc) (Apply (Conv2d i oc 3 s 1) x))))) =
         Inr [n, oc, strided h s, strided w s]"
proof -
  let ?u = "[n, oc, strided h s, strided w s]"
  have a: "shape_of tr sh (Apply (Conv2d i oc 3 s 1) x) = Inr ?u"
    using x pos ch by (simp add: window_out_3)
  have b: "shape_of tr sh (Apply (BatchNorm2d oc) (Apply (Conv2d i oc 3 s 1) x)) = Inr ?u"
    by (rule apply_shape [OF a norm_shape [OF nz]])
  have r: "shape_of tr sh (Apply ReLU (Apply (BatchNorm2d oc) (Apply (Conv2d i oc 3 s 1) x))) =
      Inr ?u"
    by (rule apply_shape [OF b]) simp
  have c: "shape_of tr sh (Apply (Conv2d oc oc 3 1 1)
      (Apply ReLU (Apply (BatchNorm2d oc) (Apply (Conv2d i oc 3 s 1) x)))) = Inr ?u"
    by (rule apply_shape [OF r]) (use ch in \<open>simp add: window_out_3 strided_pos strided_one\<close>)
  show ?thesis
    by (rule apply_shape [OF c norm_shape [OF nz]])
qed

lemma deep_main_shape:
  assumes x: "shape_of tr sh x = Inr [n, i, h, w]" and pos: "0 < h" "0 < w" "0 < s"
    and ch: "0 < i" "0 < m" and nz: "normalisable tr n (strided h s) (strided w s)"
  shows "shape_of tr sh (Apply (BatchNorm2d (m * 4)) (Apply (Conv2d m (m * 4) 1 1 0)
             (Apply ReLU (Apply (BatchNorm2d m) (Apply (Conv2d m m 3 s 1)
                (Apply ReLU (Apply (BatchNorm2d m) (Apply (Conv2d i m 1 1 0) x)))))))) =
         Inr [n, m * 4, strided h s, strided w s]"
proof -
  let ?u = "[n, m, strided h s, strided w s]"
  let ?v = "[n, m * 4, strided h s, strided w s]"
  let ?a = "Apply (Conv2d i m 1 1 0) x"
  let ?b = "Apply ReLU (Apply (BatchNorm2d m) ?a)"
  let ?c = "Apply (Conv2d m m 3 s 1) ?b"
  let ?d = "Apply ReLU (Apply (BatchNorm2d m) ?c)"
  let ?e = "Apply (Conv2d m (m * 4) 1 1 0) ?d"
  have a: "shape_of tr sh ?a = Inr [n, m, h, w]"
    by (rule apply_shape [OF x]) (use pos ch in \<open>simp add: window_out_1 strided_one\<close>)
  have a': "shape_of tr sh (Apply (BatchNorm2d m) ?a) = Inr [n, m, h, w]"
    by (rule apply_shape [OF a norm_shape [OF normalisable_strided [OF nz]]])
  have b: "shape_of tr sh ?b = Inr [n, m, h, w]"
    by (rule apply_shape [OF a']) simp
  have c: "shape_of tr sh ?c = Inr ?u"
    by (rule apply_shape [OF b]) (use pos ch in \<open>simp add: window_out_3\<close>)
  have c': "shape_of tr sh (Apply (BatchNorm2d m) ?c) = Inr ?u"
    by (rule apply_shape [OF c norm_shape [OF nz]])
  have d: "shape_of tr sh ?d = Inr ?u"
    by (rule apply_shape [OF c']) simp
  have e: "shape_of tr sh ?e = Inr ?v"
    by (rule apply_shape [OF d]) (use ch in \<open>simp add: window_out_1 strided_pos strided_one\<close>)
  show ?thesis
    by (rule apply_shape [OF e norm_shape [OF nz]])
qed

lemma ResNetBlock_shape:
  assumes x: "shape_of tr sh x = Inr [n, i, h, w]" and pos: "0 < h" "0 < w" "0 < s"
    and ch: "0 < i" "0 < oc" and nz: "normalisable tr n (strided h s) (strided w s)"
    and idp: "shape_of tr sh (identity_path p x) = Inr [n, oc, strided h s, strided w s]"
  shows "shape_of tr sh (ResNetBlock_forward (ResNetBlock_init i oc s p) x) =
         Inr [n, oc, strided h s, strided w s]"
  unfolding ResNetBlock_unfolded
  by (rule merged_shape [OF basic_main_shape [OF x pos ch nz] idp])

lemma ResNetDeepBlock_shape:
  assumes x: "shape_of tr sh x = Inr [n, i, h, w]" and pos: "0 < h" "0 < w" "0 < s"
    and ch: "0 < i" "0 < m" and nz: "normalisable tr n (strided h s) (strided w s)"
    and idp: "shape_of tr sh (identity_path p x) = Inr [n, m * 4, strided h s, strided w s]"
  shows "shape_of tr sh (ResNetDeepBlock_forward (ResNetDeepBlock_init i m p s) x) =
         Inr [n, m * 4, strided h s, strided w s]"
  unfolding ResNetDeepBlock_unfolded
  by (rule merged_shape [OF deep_main_shape [OF x pos ch nz] idp])

lemma basic_rest_keeps:
  assumes "shape_of tr sh y = Inr [n, oc, h, w]" "0 < h" "0 < w" "0 < oc"
    "normalisable tr n h w"
  shows "shape_of tr sh (block_forward (Basic (ResNetBlock_init oc oc 1 None)) y) =
         Inr [n, oc, h, w]"
  using ResNetBlock_shape [of tr sh y n oc h w 1 oc None] assms
  by (simp add: identity_path_def strided_one)

lemma deep_rest_keeps:
  assumes "shape_of tr sh y = Inr [n, m * 4, h, w]" "0 < h" "0 < w" "0 < m"
    "normalisable tr n h w"
  shows "shape_of tr sh (block_forward (Deep (ResNetDeepBlock_init (m * 4) m None 1)) y) =
         Inr [n, m * 4, h, w]"
  using ResNetDeepBlock_shape [of tr sh y n "m * 4" h w 1 m None] assms
  by (simp add: identity_path_def strided_one)

section \<open>Stages\<close>

lemma append_blocks_made:
  "append_blocks k (Inr b) ls = Inr (ls @ replicate k b)"
  by (induction k arbitrary: ls) (simp_all add: replicate_app_Cons_same)

lemma append_blocks_raised:
  "0 < k \<Longrightarrow> append_blocks k (Inl e) ls = Inl e"
  by (cases k) simp_all

lemma create_basic:
  "create_residual_layer c ResNetBlockClass oc cnt s False =
     (c, Inr (Basic (ResNetBlock_init (if oc \<noteq> 64 then oc div 2 else oc) oc s
                 (if s \<noteq> 1
                  then Some [Conv2d (if oc \<noteq> 64 then oc div 2 else oc) oc 1 s 0,
                             BatchNorm2d oc]
                  else None)) #
             replicate (nat (cnt - 1)) (Basic (ResNetBlock_init oc oc 1 None))))"
  unfolding create_residual_layer_def Let_def by (simp add: append_blocks_made)

lemma create_deep:
  "create_residual_layer c ResNetDeepBlockClass oc cnt s True =
     (oc * 4, Inr (Deep (ResNetDeepBlock_init c oc
                    (if s \<noteq> 1 \<or> c \<noteq> oc * 4
                     then Some [Conv2d c (oc * 4) 1 s 0, BatchNorm2d (oc * 4)]
                     else None) s) #
             replicate (nat (cnt - 1)) (Deep (ResNetDeepBlock_init (oc * 4) oc None 1))))"
  unfolding create_residual_layer_def Let_def by (simp add: append_blocks_made)

lemma create_misbound:
  "create_residual_layer c ResNetBlockClass oc cnt s True =
     (oc * 4, Inr (Misbound c oc
                    (if s \<noteq> 1 \<or> c \<noteq> oc * 4
                     then Some [Conv2d c (oc * 4) 1 s 0, BatchNorm2d (oc * 4)]
                     else None) s #
             replicate (nat (cnt - 1)) (Basic (ResNetBlock_init (oc * 4) oc 1 None))))"
  unfolding create_residual_layer_def Let_def by (simp add: append_blocks_made)

lemma create_unknown_keyword:
  "create_residual_layer c ResNetDeepBlockClass oc cnt s False = (c, Inl TypeError)"
  unfolding create_residual_layer_def Let_def by simp

lemma stage_forward_Cons: "stage_forward (b # bs) x = stage_forward bs (block_forward b x)"
  by (simp add: stage_forward_def)

lemma stage_forward_replicate:
  assumes keep: "\<And>y. shape_of tr sh y = Inr u \<Longrightarrow> shape_of tr sh (block_forward b y) = Inr u"
  shows "shape_of tr sh x = Inr u \<Longrightarrow> shape_of tr sh (stage_forward (replicate k b) x) = Inr u"
proof (induction k arbitrary: x)
  case 0
  then show ?case by (simp add: stage_forward_def)
next
  case (Suc k)
  then show ?case by (simp add: stage_forward_Cons keep)
qed

lemma basic_stage_shape:
  assumes x: "shape_of tr sh x = Inr [n, if oc \<noteq> 64 then oc div 2 else oc, h, w]"
    and pos: "0 < h" "0 < w" "0 < s"
    and ch: "2 \<le> oc"
    and nz: "normalisable tr n (strided h s) (strided w s)"
    and ok: "s \<noteq> 1 \<or> oc = 64"
  shows "shape_of tr sh (stage_forward
           (Basic (ResNetBlock_init (if oc \<noteq> 64 then oc div 2 else oc) oc s
                     (if s \<noteq> 1
                      then Some [Conv2d (if oc \<noteq> 64 then oc div 2 else oc) oc 1 s 0,
                                 BatchNorm2d oc]
                      else None)) #
            replicate k (Basic (ResNetBlock_init oc oc 1 None))) x) =
         Inr [n, oc, strided h s, strided w s]"
proof -
  let ?i = "if oc \<noteq> 64 then oc div 2 else oc"
  let ?p = "if s \<noteq> 1 then Some [Conv2d ?i oc 1 s 0, BatchNorm2d oc] else None"
  let ?u = "[n, oc, strided h s, strided w s]"
  have ch': "0 < ?i" "0 < oc"
    using ch by auto
  have idp: "shape_of tr sh (identity_path ?p x) = Inr ?u"
  proof (cases "s = 1")
    case True
    with ok x pos show ?thesis by (simp add: identity_path_def strided_one)
  next
    case False
    with projection_shape [OF x pos ch' nz] show ?thesis by simp
  qed
  have first: "shape_of tr sh (block_forward (Basic (ResNetBlock_init ?i oc s ?p)) x) = Inr ?u"
    using ResNetBlock_shape [OF x pos ch' nz idp] by simp
  have keep: "\<And>y. shape_of tr sh y = Inr ?u \<Longrightarrow>
      shape_of tr sh (block_forward (Basic (ResNetBlock_init oc oc 1 None)) y) = Inr ?u"
    by (rule basic_rest_keeps) (use ch' nz in \<open>simp_all add: strided_pos\<close>)
  show ?thesis
    unfolding stage_forward_Cons
    by (rule stage_forward_replicate [OF keep first])
qed

lemma deep_stage_shape:
  assumes x: "shape_of tr sh x = Inr [n, c, h, w]"
    and pos: "0 < h" "0 < w" "0 < s"
    and ch: "0 < c" "0 < oc"
    and nz: "normalisable tr n (strided h s) (strided w s)"
  shows "shape_of tr sh (stage_forward
           (Deep (ResNetDeepBlock_init c oc
                    (if s \<noteq> 1 \<or> c \<noteq> oc * 4
                     then Some [Conv2d c (oc * 4) 1 s 0, BatchNorm2d (oc * 4)]
                     else None) s) #
            replicate k (Deep (ResNetDeepBlock_init (oc * 4) oc None 1))) x) =
         Inr [n, oc * 4, strided h s, strided w s]"
proof -
  let ?p = "if s \<noteq> 1 \<or> c \<noteq> oc * 4
            then Some [Conv2d c (oc * 4) 1 s 0, BatchNorm2d (oc * 4)] else None"
  let ?u = "[n, oc * 4, strided h s, strided w s]"
  have ch4: "0 < oc * 4"
    using ch by simp
  have idp: "shape_of tr sh (identity_path ?p x) = Inr ?u"
  proof (cases "s \<noteq> 1 \<or> c \<noteq> oc * 4")
    case True
    with projection_shape [OF x pos ch(1) ch4 nz] show ?thesis by simp
  next
    case False
    with x pos show ?thesis by (simp add: identity_path_def strided_one)
  qed
  have first: "shape_of tr sh (block_forward (Deep (ResNetDeepBlock_init c oc ?p s)) x) = Inr ?u"
    using ResNetDeepBlock_shape [OF x pos ch nz idp] by simp
  have keep: "\<And>y. shape_of tr sh y = Inr ?u \<Longrightarrow>
      shape_of tr sh (block_forward (Deep (ResNetDeepBlock_init (oc * 4) oc None 1)) y) = Inr ?u"
    by (rule deep_rest_keeps) (use ch nz in \<open>simp_all add: strided_pos\<close>)
  show ?thesis
    unfolding stage_forward_Cons
    by (rule stage_forward_replicate [OF keep first])
qed

section \<open>The network\<close>

lemma py_index_first_four:
  assumes "4 \<le> length layers"
  shows "py_index layers 0 = Inr (layers ! 0)" "py_index layers (Suc 0) = Inr (layers ! Suc 0)"
    "py_index layers 2 = Inr (layers ! 2)" "py_index layers 3 = Inr (layers ! 3)"
  using assms by (auto simp add: py_index_def)

lemma ResNet_init_basic:
  assumes "4 \<le> length layers"
  shows "ResNet_init ic nc layers ResNetBlockClass =
     Inr \<lparr> in_channels = 64,
           initial_layers = [Conv2d ic 64 7 2 3, BatchNorm2d 64, MaxPool2d 3 2 1, ReLU],
           layer_64 = Basic (ResNetBlock_init 64 64 1 None) #
             replicate (nat (layers ! 0 - 1)) (Basic (ResNetBlock_init 64 64 1 None)),
           layer_128 =
             Basic (ResNetBlock_init 64 128 2 (Some [Conv2d 64 128 1 2 0, BatchNorm2d 128])) #
             replicate (nat (layers ! 1 - 1)) (Basic (ResNetBlock_init 128 128 1 None)),
           layer_256 =
             Basic (ResNetBlock_init 128 256 2 (Some [Conv2d 128 256 1 2 0, BatchNorm2d 256])) #
             replicate (nat (layers ! 2 - 1)) (Basic (ResNetBlock_init 256 256 1 None)),
           layer_512 =
             Basic (ResNetBlock_init 256 512 2 (Some [Conv2d 256 512 1 2 0, BatchNorm2d 512])) #
             replicate (nat (layers ! 3 - 1)) (Basic (ResNetBlock_init 512 512 1 None)),
           global_avg_pool = AdaptiveAvgPool2d 1 1,
           fc = Linear 512 nc \<rparr>"
  by (simp add: ResNet_init_def py_index_first_four [OF assms] bind_err_def create_basic Let_def)

lemma ResNet_init_deep:
  assumes "4 \<le> length layers"
  shows "ResNet_init ic nc layers ResNetDeepBlockClass =
     Inr \<lparr> in_channels = 2048,
           initial_layers = [Conv2d ic 64 7 2 3, BatchNorm2d 64, MaxPool2d 3 2 1, ReLU],
           layer_64 =
             Deep (ResNetDeepBlock_init 64 64 (Some [Conv2d 64 256 1 1 0, BatchNorm2d 256]) 1) #
             replicate (nat (layers ! 0 - 1)) (Deep (ResNetDeepBlock_init 256 64 None 1)),
           layer_128 =
             Deep (ResNetDeepBlock_init 256 128 (Some [Conv2d 256 512 1 2 0, BatchNorm2d 512]) 2) #
             replicate (nat (layers ! 1 - 1)) (Deep (ResNetDeepBlock_init 512 128 None 1)),
           layer_256 =
             Deep (ResNetDeepBlock_init 512 256
                     (Some [Conv2d 512 1024 1 2 0, BatchNorm2d 1024]) 2) #
             replicate (nat (layers ! 2 - 1)) (Deep (ResNetDeepBlock_init 1024 256 None 1)),
           layer_512 =
             Deep (ResNetDeepBlock_init 1024 512
                     (Some [Conv2d 1024 2048 1 2 0, BatchNorm2d 2048]) 2) #
             replicate (nat (layers ! 3 - 1)) (Deep (ResNetDeepBlock_init 2048 512 None 1)),
           global_avg_pool = AdaptiveAvgPool2d 1 1,
           fc = Linear 2048 nc \<rparr>"
  by (simp add: ResNet_init_def py_index_first_four [OF assms] bind_err_def create_deep Let_def)



lemma stem_shape:
  assumes "0 < h" "0 < w" "0 < ic" "normalisable tr n (strided h 2) (strided w 2)"
  shows "shape_of tr [n, ic, h, w]
           (Sequential [Conv2d ic 64 7 2 3, BatchNorm2d 64, MaxPool2d 3 2 1, ReLU] Input) =
         Inr [n, 64, strided (strided h 2) 2, strided (strided w 2) 2]"
proof -
  have a: "shape_of tr [n, ic, h, w] (Apply (Conv2d ic 64 7 2 3) Input) =
      Inr [n, 64, strided h 2, strided w 2]"
    using assms(1-3) by (simp add: window_out_7)
  have b: "shape_of tr [n, ic, h, w] (Apply (BatchNorm2d 64) (Apply (Conv2d ic 64 7 2 3) Input)) =
      Inr [n, 64, strided h 2, strided w 2]"
    by (rule apply_shape [OF a norm_shape [OF assms(4)]])
  have c: "shape_of tr [n, ic, h, w]
      (Apply (MaxPool2d 3 2 1) (Apply (BatchNorm2d 64) (Apply (Conv2d ic 64 7 2 3) Input))) =
      Inr [n, 64, strided (strided h 2) 2, strided (strided w 2) 2]"
    by (rule apply_shape [OF b]) (simp add: window_out_3 strided_pos)
  have "shape_of tr [n, ic, h, w] (Apply ReLU
      (Apply (MaxPool2d 3 2 1) (Apply (BatchNorm2d 64) (Apply (Conv2d ic 64 7 2 3) Input)))) =
      Inr [n, 64, strided (strided h 2) 2, strided (strided w 2) 2]"
    by (rule apply_shape [OF c]) simp
  then show ?thesis
    by (simp add: Sequential_def)
qed

lemma head_shape:
  assumes x: "shape_of tr sh x = Inr [n, c, h, w]" and pos: "0 < c" "0 < h" "0 < w" "c \<noteq> 1"
  shows "shape_of tr sh (Apply (Linear c nc) (Squeeze (Apply (AdaptiveAvgPool2d 1 1) x))) =
         Inr (if n = 1 then [nc] else [n, nc])"
  using x pos by (simp add: squeeze_shape_def)

lemma ResNet_forward_basic_shape:
  assumes len: "4 \<le> length layers" and pos: "0 < h" "0 < w" and ic: "0 < ic"
    and nz: "normalisable tr n (reduced h) (reduced w)"
    and net: "ResNet_init ic nc layers ResNetBlockClass = Inr net"
  shows "shape_of tr [n, ic, h, w] (ResNet_forward net Input) =
         Inr (if n = 1 then [nc] else [n, nc])"
proof -
  let ?sh = "[n, ic, h, w]"
  let ?h1 = "strided h 2" and ?w1 = "strided w 2"
  let ?h2 = "strided ?h1 2" and ?w2 = "strided ?w1 2"
  let ?h3 = "strided ?h2 2" and ?w3 = "strided ?w2 2"
  let ?h4 = "strided ?h3 2" and ?w4 = "strided ?w3 2"
  let ?h5 = "strided ?h4 2" and ?w5 = "strided ?w4 2"
  let ?x0 = "Sequential (initial_layers net) Input"
  let ?x1 = "stage_forward (layer_64 net) ?x0"
  let ?x2 = "stage_forward (layer_128 net) ?x1"
  let ?x3 = "stage_forward (layer_256 net) ?x2"
  let ?x4 = "stage_forward (layer_512 net) ?x3"
  note n = net [unfolded ResNet_init_basic [OF len], simplified, symmetric]
  have n5: "normalisable tr n ?h5 ?w5"
    using nz by (simp add: reduced_def)
  have n4: "normalisable tr n ?h4 ?w4" by (rule normalisable_strided [OF n5])
  have n3: "normalisable tr n ?h3 ?w3" by (rule normalisable_strided [OF n4])
  have n2: "normalisable tr n ?h2 ?w2" by (rule normalisable_strided [OF n3])
  have n1: "normalisable tr n ?h1 ?w1" by (rule normalisable_strided [OF n2])
  have s0: "shape_of tr ?sh ?x0 = Inr [n, 64, ?h2, ?w2]"
    using stem_shape [OF pos ic n1] by (simp add: n)
  have s1: "shape_of tr ?sh ?x1 = Inr [n, 64, ?h2, ?w2]"
    using basic_stage_shape [of tr ?sh ?x0 n 64 ?h2 ?w2 1 "nat (layers ! 0 - 1)"] s0 n2
    by (simp add: n strided_pos strided_one)
  have s2: "shape_of tr ?sh ?x2 = Inr [n, 128, ?h3, ?w3]"
    using basic_stage_shape [of tr ?sh ?x1 n 128 ?h2 ?w2 2 "nat (layers ! 1 - 1)"] s1 n3
    by (simp add: n strided_pos)
  have s3: "shape_of tr ?sh ?x3 = Inr [n, 256, ?h4, ?w4]"
    using basic_stage_shape [of tr ?sh ?x2 n 256 ?h3 ?w3 2 "nat (layers ! 2 - 1)"] s2 n4
    by (simp add: n strided_pos)
  have s4: "shape_of tr ?sh ?x4 = Inr [n, 512, ?h5, ?w5]"
    using basic_stage_shape [of tr ?sh ?x3 n 512 ?h4 ?w4 2 "nat (layers ! 3 - 1)"] s3 n5
    by (simp add: n strided_pos)
  have "shape_of tr ?sh (Apply (Linear 512 nc) (Squeeze (Apply (AdaptiveAvgPool2d 1 1) ?x4))) =
        Inr (if n = 1 then [nc] else [n, nc])"
    by (rule head_shape [OF s4]) (simp_all add: strided_pos)
  then show ?thesis
    by (simp add: ResNet_forward_def Let_def n)
qed

lemma ResNet_forward_deep_shape:
  assumes len: "4 \<le> length layers" and pos: "0 < h" "0 < w" and ic: "0 < ic"
    and nz: "normalisable tr n (reduced h) (reduced w)"
    and net: "ResNet_init ic nc layers ResNetDeepBlockClass = Inr net"
  shows "shape_of tr [n, ic, h, w] (ResNet_forward net Input) =
         Inr (if n = 1 then [nc] else [n, nc])"
proof -
  let ?sh = "[n, ic, h, w]"
  let ?h1 = "strided h 2" and ?w1 = "strided w 2"
  let ?h2 = "strided ?h1 2" and ?w2 = "strided ?w1 2"
  let ?h3 = "strided ?h2 2" and ?w3 = "strided ?w2 2"
  let ?h4 = "strided ?h3 2" and ?w4 = "strided ?w3 2"
  let ?h5 = "strided ?h4 2" and ?w5 = "strided ?w4 2"
  let ?x0 = "Sequential (initial_layers net) Input"
  let ?x1 = "stage_forward (layer_64 net) ?x0"
  let ?x2 = "stage_forward (layer_128 net) ?x1"
  let ?x3 = "stage_forward (layer_256 net) ?x2"
  let ?x4 = "stage_forward (layer_512 net) ?x3"
  note n = net [unfolded ResNet_init_deep [OF len], simplified, symmetric]
  have n5: "normalisable tr n ?h5 ?w5"
    using nz by (simp add: reduced_def)
  have n4: "normalisable tr n ?h4 ?w4" by (rule normalisable_strided [OF n5])
  have n3: "normalisable tr n ?h3 ?w3" by (rule normalisable_strided [OF n4])
  have n2: "normalisable tr n ?h2 ?w2" by (rule normalisable_strided [OF n3])
  have n1: "normalisable tr n ?h1 ?w1" by (rule normalisable_strided [OF n2])
  have s0: "shape_of tr ?sh ?x0 = Inr [n, 64, ?h2, ?w2]"
    using stem_shape [OF pos ic n1] by (simp add: n)
  have s1: "shape_of tr ?sh ?x1 = Inr [n, 256, ?h2, ?w2]"
    using deep_stage_shape [of tr ?sh ?x0 n 64 ?h2 ?w2 1 64 "nat (layers ! 0 - 1)"] s0 n2
    by (simp add: n strided_pos strided_one)
  have s2: "shape_of tr ?sh ?x2 = Inr [n, 512, ?h3, ?w3]"
    using deep_stage_shape [of tr ?sh ?x1 n 256 ?h2 ?w2 2 128 "nat (layers ! 1 - 1)"] s1 n3
    by (simp add: n strided_pos)
  have s3: "shape_of tr ?sh ?x3 = Inr [n, 1024, ?h4, ?w4]"
    using deep_stage_shape [of tr ?sh ?x2 n 512 ?h3 ?w3 2 256 "nat (layers ! 2 - 1)"] s2 n4
    by (simp add: n strided_pos)
  have s4: "shape_of tr ?sh ?x4 = Inr [n, 2048, ?h5, ?w5]"
    using deep_stage_shape [of tr ?sh ?x3 n 1024 ?h4 ?w4 2 512 "nat (layers ! 3 - 1)"] s3 n5
    by (simp add: n strided_pos)
  have "shape_of tr ?sh (Apply (Linear 2048 nc) (Squeeze (Apply (AdaptiveAvgPool2d 1 1) ?x4))) =
        Inr (if n = 1 then [nc] else [n, nc])"
    by (rule head_shape [OF s4]) (simp_all add: strided_pos)
  then show ?thesis
    by (simp add: ResNet_forward_def Let_def n)
qed

text \<open>
  Shape of the output of a network of one of the two block classes, built and then called
  in either mode, for any batch size \<open>n\<close>: the scores have the shape \<open>(n, num_classes)\<close>
  unless \<open>n = 1\<close>. In training mode the last normalisation layers need more than one
  value per channel.
\<close>

lemma ResNet_output_shape_general:
  assumes cls: "own_class blk" and len: "4 \<le> length layers"
    and pos: "0 < ic" "0 < h" "0 < w"
    and nz: "normalisable tr n (reduced h) (reduced w)"
  shows "ResNet_output_shape tr ic nc layers blk [n, ic, h, w] =
         Inr (if n = 1 then [nc] else [n, nc])"
proof -
  from cls consider "blk = ResNetBlockClass" | "blk = ResNetDeepBlockClass"
    by (auto simp add: own_class_def)
  then show ?thesis
  proof cases
    case 1
    obtain net where net: "ResNet_init ic nc layers ResNetBlockClass = Inr net"
      using ResNet_init_basic [OF len] by blast
    show ?thesis
      unfolding ResNet_output_shape_def 1 net
      using ResNet_forward_basic_shape [OF len pos(2,3) pos(1) nz net] by simp
  next
    case 2
    obtain net where net: "ResNet_init ic nc layers ResNetDeepBlockClass = Inr net"
      using ResNet_init_deep [OF len] by blast
    show ?thesis
      unfolding ResNet_output_shape_def 2 net
      using ResNet_forward_deep_shape [OF len pos(2,3) pos(1) nz net] by simp
  qed
qed

lemma reduced_224: "reduced 224 = 7"
  by (simp add: reduced_def strided_def)

text \<open>
  The two calls of the script at the end of the file, on a batch of sixteen images, in
  either mode.
\<close>

lemma scenario_basic:
  "ResNet_output_shape tr 3 36 [2, 2, 2, 2] ResNetBlockClass [16, 3, 224, 224] = Inr [16, 36]"
  using ResNet_output_shape_general [of ResNetBlockClass "[2, 2, 2, 2]" 3 224 224 tr 16 36]
  by (simp add: own_class_def reduced_224 normalisable_def)

lemma scenario_deep:
  "ResNet_output_shape tr 3 36 [3, 4, 23, 3] ResNetDeepBlockClass [16, 3, 224, 224] =
   Inr [16, 36]"
  using ResNet_output_shape_general [of ResNetDeepBlockClass "[3, 4, 23, 3]" 3 224 224 tr 16 36]
  by (simp add: own_class_def reduced_224 normalisable_def)

text \<open>
  In training mode a single image of 32 by 32 cells is refused: the last stage is left
  with one value per channel. In evaluation mode it goes through.
\<close>

lemma single_image_training_corner:
  "ResNet_output_shape True 3 36 [1, 1, 1, 1] ResNetBlockClass [1, 3, 32, 32] =
     Inl (LayerShapeError (BatchNorm2d 512) [1, 512, 1, 1]) \<and>
   ResNet_output_shape False 3 36 [1, 1, 1, 1] ResNetBlockClass [1, 3, 32, 32] = Inr [36]"
  by (simp add: ResNet_output_shape_def ResNet_init_basic ResNet_forward_def stage_forward_def
      Sequential_def ResNetBlock_unfolded identity_path_def window_out_def iadd_shape_def
      broadcastable_to_def squeeze_shape_def Let_def)

text \<open>
  C1: the forward pass on a batch of shape \<open>(N, input_channels, H, W)\<close> is claimed to return
  shape \<open>(N, num_classes)\<close> for every batch size. The lemmas above give it for every
  \<open>N\<close> but one. For a batch of a single image, \<open>x.squeeze()\<close> drops the batch axis
  together with the two spatial axes, and the network returns the shape \<open>(num_classes)\<close>:
  for every network built from at least four block counts, of either block class of the
  repository, and every image of positive height and width, in evaluation mode and, when
  the last feature map is larger than 1x1, in training mode.
\<close>

theorem ResNet_forward_single_image:
  assumes "own_class blk" "4 \<le> length layers" "0 < ic" "0 < h" "0 < w"
    and "normalisable training 1 (reduced h) (reduced w)"
  shows "ResNet_output_shape training ic nc layers blk [1, ic, h, w] = Inr [nc]"
  using ResNet_output_shape_general [OF assms, of nc] by simp

theorem ResNet_forward_single_image_witness:
  "ResNet_output_shape True 3 36 [2, 2, 2, 2] ResNetBlockClass [1, 3, 224, 224] = Inr [36] \<and>
   ResNet_output_shape False 3 36 [2, 2, 2, 2] ResNetBlockClass [1, 3, 224, 224] = Inr [36]"
  using ResNet_forward_single_image [of ResNetBlockClass "[2, 2, 2, 2]" 3 224 224 True 36]
    ResNet_forward_single_image [of ResNetBlockClass "[2, 2, 2, 2]" 3 224 224 False 36]
  by (simp add: own_class_def reduced_224 normalisable_def)

section \<open>Errors pass through\<close>

lemma Sequential_error:
  "shape_of tr sh x = Inl e \<Longrightarrow> shape_of tr sh (Sequential ls x) = Inl e"
  unfolding Sequential_def by (induction ls arbitrary: x) simp_all

lemma block_forward_error:
  assumes "shape_of tr sh x = Inl e"
  shows "shape_of tr sh (block_forward b x) = Inl e"
proof (cases b)
  case (Basic r)
  have "shape_of tr sh (Sequential (conv_block_2 r) (Sequential (conv_block_1 r) x)) = Inl e"
    by (intro Sequential_error assms)
  then show ?thesis
    by (simp add: Basic ResNetBlock_forward_def Let_def)
next
  case (Deep r)
  with assms show ?thesis
    by (simp add: ResNetDeepBlock_forward_def Let_def)
next
  case (Misbound a b' p s)
  with assms show ?thesis by simp
next
  case (Foreign f)
  with assms show ?thesis by simp
qed

lemma stage_forward_error:
  "shape_of tr sh x = Inl e \<Longrightarrow> shape_of tr sh (stage_forward bs x) = Inl e"
proof (induction bs arbitrary: x)
  case Nil
  then show ?case by (simp add: stage_forward_def)
next
  case (Cons b bs)
  then show ?case by (simp add: stage_forward_Cons block_forward_error)
qed

section \<open>Blocks without a projection\<close>

lemma merge_refused:
  assumes "i \<noteq> oc \<and> i \<noteq> 1 \<or> h \<noteq> h' \<and> h \<noteq> 1 \<or> w \<noteq> w' \<and> w \<noteq> 1"
  shows "iadd_shape [n, oc, h', w'] [n, i, h, w] =
         Inl (MergeShapeError [n, oc, h', w'] [n, i, h, w])"
  using assms by (auto simp add: iadd_shape_def broadcastable_to_def)

lemma no_projection_merge:
  assumes "2 \<le> s \<and> (2 \<le> h \<or> 2 \<le> w) \<or> i \<noteq> 1 \<and> i \<noteq> oc"
  shows "iadd_shape [n, oc, strided h s, strided w s] [n, i, h, w] =
         Inl (MergeShapeError [n, oc, strided h s, strided w s] [n, i, h, w])"
proof (rule merge_refused)
  from assms show "i \<noteq> oc \<and> i \<noteq> 1 \<or> h \<noteq> strided h s \<and> h \<noteq> 1 \<or>
      w \<noteq> strided w s \<and> w \<noteq> 1"
    using strided_less [of s h] strided_less [of s w] by auto
qed

lemma basic_no_projection_fails:
  assumes pos: "0 < h" "0 < w" "0 < s" and ch: "0 < i" "0 < oc"
    and nz: "normalisable tr n (strided h s) (strided w s)"
    and bad: "2 \<le> s \<and> (2 \<le> h \<or> 2 \<le> w) \<or> i \<noteq> 1 \<and> i \<noteq> oc"
  shows "shape_of tr [n, i, h, w] (ResNetBlock_forward (ResNetBlock_init i oc s None) Input) =
         Inl (MergeShapeError [n, oc, strided h s, strided w s] [n, i, h, w])"
proof -
  have x: "shape_of tr [n, i, h, w] Input = Inr [n, i, h, w]" by simp
  show ?thesis
    unfolding ResNetBlock_unfolded
    by (rule merge_error [OF basic_main_shape [OF x pos ch nz] _ no_projection_merge [OF bad]])
      (simp add: identity_path_def)
qed

lemma deep_no_projection_fails:
  assumes pos: "0 < h" "0 < w" "0 < s" and ch: "0 < i" "0 < m"
    and nz: "normalisable tr n (strided h s) (strided w s)"
    and bad: "2 \<le> s \<and> (2 \<le> h \<or> 2 \<le> w) \<or> i \<noteq> 1 \<and> i \<noteq> m * 4"
  shows "shape_of tr [n, i, h, w]
           (ResNetDeepBlock_forward (ResNetDeepBlock_init i m None s) Input) =
         Inl (MergeShapeError [n, m * 4, strided h s, strided w s] [n, i, h, w])"
proof -
  have x: "shape_of tr [n, i, h, w] Input = Inr [n, i, h, w]" by simp
  show ?thesis
    unfolding ResNetDeepBlock_unfolded
    by (rule merge_error [OF deep_main_shape [OF x pos ch nz] _ no_projection_merge [OF bad]])
      (simp add: identity_path_def)
qed

text \<open>
  In training mode a single image whose feature map is one cell never reaches the
  addition: the first normalisation layer of the block refuses it.
\<close>

lemma single_value_refused:
  "shape_of True [1, 32, 1, 1] (ResNetBlock_forward (ResNetBlock_init 32 64 1 None) Input) =
   Inl (LayerShapeError (BatchNorm2d 64) [1, 64, 1, 1])"
  by (simp add: ResNetBlock_unfolded window_out_def)

section \<open>The stage builder\<close>

text \<open>
  What the stage builder does about the projection of the first block. The deep branch
  builds one exactly when the stride is not one or the running channel count differs from
  four times the width, and the projection is a 1x1 convolution at the stage's stride
  followed by a normalisation. The other branch looks at the stride alone.
\<close>

lemma deep_stage_projection:
  "\<exists>p bs. create_residual_layer c ResNetDeepBlockClass oc cnt s True =
            (oc * 4, Inr (Deep (ResNetDeepBlock_init c oc p s) # bs)) \<and>
          (p \<noteq> None) = (s \<noteq> 1 \<or> c \<noteq> oc * expansion_factor ResNetDeepBlockClass) \<and>
          (p = None \<or> p = Some [Conv2d c (oc * 4) 1 s 0, BatchNorm2d (oc * 4)])"
  unfolding create_deep by (auto simp add: expansion_factor_def)

lemma basic_stage_projection:
  "\<exists>p bs. create_residual_layer c ResNetBlockClass oc cnt s False =
            (c, Inr (Basic (ResNetBlock_init (if oc \<noteq> 64 then oc div 2 else oc) oc s p) # bs)) \<and>
          (p \<noteq> None) = (s \<noteq> 1) \<and>
          (p = None \<or>
           p = Some [Conv2d (if oc \<noteq> 64 then oc div 2 else oc) oc 1 s 0, BatchNorm2d oc])"
  unfolding create_basic by auto

text \<open>
  C2: a projection is claimed for the first block of every stage, of either class, exactly
  when the stride is not one or the input channel count differs from the width times the
  expansion factor. The deep branch does so (\<open>deep_stage_projection\<close>). The other branch
  tests \<open>stride != 1\<close> only: a stage of basic blocks of a width other than 64 built at
  stride one gets no projection although its first block takes half the width in and
  puts the width out, and the forward pass of the stage stops at the addition of its first
  block (on any input the normalisation layers accept).
\<close>

theorem basic_stage_misses_projection:
  assumes "oc \<noteq> 64" "4 \<le> oc" "0 < h" "0 < w" "normalisable training n h w"
  shows "create_residual_layer c ResNetBlockClass oc cnt 1 False =
           (c, Inr (Basic (ResNetBlock_init (oc div 2) oc 1 None) #
                    replicate (nat (cnt - 1)) (Basic (ResNetBlock_init oc oc 1 None)))) \<and>
         oc div 2 \<noteq> oc * expansion_factor ResNetBlockClass \<and>
         shape_of training [n, oc div 2, h, w]
           (stage_forward (Basic (ResNetBlock_init (oc div 2) oc 1 None) #
                           replicate (nat (cnt - 1)) (Basic (ResNetBlock_init oc oc 1 None)))
              Input) =
           Inl (MergeShapeError [n, oc, h, w] [n, oc div 2, h, w])"
proof -
  have ne: "oc div 2 \<noteq> 1 \<and> oc div 2 \<noteq> oc" and ch: "0 < oc div 2" "0 < oc"
    using assms(2) by auto
  have nz: "normalisable training n (strided h 1) (strided w 1)"
    using assms(3-5) by (simp add: strided_one)
  have "shape_of training [n, oc div 2, h, w]
          (ResNetBlock_forward (ResNetBlock_init (oc div 2) oc 1 None) Input) =
        Inl (MergeShapeError [n, oc, strided h 1, strided w 1] [n, oc div 2, h, w])"
    using assms(3,4) ne ch nz by (intro basic_no_projection_fails) simp_all
  then have "shape_of training [n, oc div 2, h, w]
          (block_forward (Basic (ResNetBlock_init (oc div 2) oc 1 None)) Input) =
        Inl (MergeShapeError [n, oc, h, w] [n, oc div 2, h, w])"
    using assms(3,4) by (simp add: strided_one)
  then show ?thesis
    using assms(1) ne
    by (simp add: create_basic stage_forward_Cons stage_forward_error expansion_factor_def)
qed

theorem basic_stage_misses_projection_witness:
  "create_residual_layer 64 ResNetBlockClass 128 2 1 False =
     (64, Inr [Basic (ResNetBlock_init 64 128 1 None), Basic (ResNetBlock_init 128 128 1 None)]) \<and>
   shape_of True [2, 64, 8, 8]
     (stage_forward [Basic (ResNetBlock_init 64 128 1 None),
                     Basic (ResNetBlock_init 128 128 1 None)] Input) =
     Inl (MergeShapeError [2, 128, 8, 8] [2, 64, 8, 8])"
  using basic_stage_misses_projection [of 128 8 8 True 2 64 2]
  by (simp add: normalisable_def)

text \<open>
  When the flag \<open>deep\<close> and the class disagree, the stage is another one. With the flag
  set and the basic class the later blocks take four times the width in and put the width
  out; with the flag unset and the deep class the first call raises.
\<close>

lemma mismatched_stage:
  "create_residual_layer 64 ResNetBlockClass 64 2 1 True =
     (256, Inr [Misbound 64 64 (Some [Conv2d 64 256 1 1 0, BatchNorm2d 256]) 1,
                Basic (ResNetBlock_init 256 64 1 None)]) \<and>
   create_residual_layer 64 ResNetDeepBlockClass 64 2 1 False = (64, Inl TypeError)"
  by (simp add: create_misbound create_unknown_keyword)

text \<open>
  C8: in every stage the builder returns for one of the two classes, called the way the
  network calls it (the flag \<open>deep\<close> computed from the name of the class), each block after
  the first is built with the stage's output channel count (the width times the expansion
  factor) as input channels, the width, stride one and no projection; on an input with
  that many channels that its normalisation layers accept, it returns the shape it was
  given.
\<close>

theorem stage_later_blocks:
  assumes "own_class blk" "deep = (class_name blk = ''ResNetDeepBlock'')"
    and "create_residual_layer c blk oc cnt s deep = (c', Inr st)"
  shows "\<forall>b \<in> set (tl st).
           (blk = ResNetBlockClass \<longrightarrow> b = Basic (ResNetBlock_init oc oc 1 None)) \<and>
           (blk = ResNetDeepBlockClass \<longrightarrow> b = Deep (ResNetDeepBlock_init (oc * 4) oc None 1)) \<and>
           (\<forall>training n h w.
              0 < oc \<and> 0 < h \<and> 0 < w \<and> normalisable training n h w \<longrightarrow>
              shape_of training [n, oc * expansion_factor blk, h, w] (block_forward b Input) =
              Inr [n, oc * expansion_factor blk, h, w])"
proof -
  from assms(1) consider "blk = ResNetBlockClass" | "blk = ResNetDeepBlockClass"
    by (auto simp add: own_class_def)
  then show ?thesis
  proof cases
    case 1
    with assms(2) have d: "\<not> deep" by simp
    have "tl st = replicate (nat (cnt - 1)) (Basic (ResNetBlock_init oc oc 1 None))"
      using assms(3) unfolding 1 using d by (auto simp add: create_basic)
    then show ?thesis
      using basic_rest_keeps [of _ _ Input _ oc]
      by (auto simp add: 1 expansion_factor_def)
  next
    case 2
    with assms(2) have d: "deep" by simp
    have "tl st = replicate (nat (cnt - 1)) (Deep (ResNetDeepBlock_init (oc * 4) oc None 1))"
      using assms(3) unfolding 2 using d by (auto simp add: create_deep)
    then show ?thesis
      using deep_rest_keeps [of _ _ Input _ oc]
      by (auto simp add: 2 expansion_factor_def)
  qed
qed

theorem stage_later_blocks_witness:
  "create_residual_layer 64 ResNetDeepBlockClass 64 3 1 True =
     (256, Inr [Deep (ResNetDeepBlock_init 64 64
                        (Some [Conv2d 64 256 1 1 0, BatchNorm2d 256]) 1),
                Deep (ResNetDeepBlock_init 256 64 None 1),
                Deep (ResNetDeepBlock_init 256 64 None 1)]) \<and>
   shape_of True [16, 256, 56, 56]
     (block_forward (Deep (ResNetDeepBlock_init 256 64 None 1)) Input) = Inr [16, 256, 56, 56]"
proof -
  have st: "create_residual_layer 64 ResNetDeepBlockClass 64 3 1 True =
     (256, Inr [Deep (ResNetDeepBlock_init 64 64
                        (Some [Conv2d 64 256 1 1 0, BatchNorm2d 256]) 1),
                Deep (ResNetDeepBlock_init 256 64 None 1),
                Deep (ResNetDeepBlock_init 256 64 None 1)])"
    by (simp add: create_deep numeral_2_eq_2)
  have "own_class ResNetDeepBlockClass"
    by (simp add: own_class_def)
  from stage_later_blocks [OF this _ st] show ?thesis
    using st by (simp add: expansion_factor_def normalisable_def)
qed

text \<open>
  C9: for the basic class the first block of a stage takes half the width as input
  channels (integer division) when the width is not 64, and the width itself when it is
  64. The running channel count plays no part: it is returned unchanged, and every other
  value of it gives the same stage.
\<close>

theorem basic_first_block_width:
  assumes "create_residual_layer c ResNetBlockClass oc cnt s False = (c', Inr st)"
  shows "c' = c \<and>
         (\<exists>p. hd st = Basic (ResNetBlock_init (if oc \<noteq> 64 then oc div 2 else oc) oc s p)) \<and>
         (\<forall>d. create_residual_layer d ResNetBlockClass oc cnt s False = (d, Inr st))"
  using assms by (auto simp add: create_basic)

theorem basic_first_block_width_witness:
  "create_residual_layer 64 ResNetBlockClass 256 2 2 False =
     (64, Inr [Basic (ResNetBlock_init 128 256 2 (Some [Conv2d 128 256 1 2 0, BatchNorm2d 256])),
               Basic (ResNetBlock_init 256 256 1 None)]) \<and>
   create_residual_layer 999 ResNetBlockClass 256 2 2 False =
     (999, Inr [Basic (ResNetBlock_init 128 256 2 (Some [Conv2d 128 256 1 2 0, BatchNorm2d 256])),
                Basic (ResNetBlock_init 256 256 1 None)]) \<and>
   create_residual_layer 64 ResNetBlockClass 64 1 1 False =
     (64, Inr [Basic (ResNetBlock_init 64 64 1 None)])"
proof -
  have st: "create_residual_layer 64 ResNetBlockClass 256 2 2 False =
     (64, Inr [Basic (ResNetBlock_init 128 256 2 (Some [Conv2d 128 256 1 2 0, BatchNorm2d 256])),
               Basic (ResNetBlock_init 256 256 1 None)])"
    by (simp add: create_basic)
  have st': "create_residual_layer 64 ResNetBlockClass 64 1 1 False =
     (64, Inr [Basic (ResNetBlock_init 64 64 1 None)])"
    by (simp add: create_basic)
  from basic_first_block_width [OF st] basic_first_block_width [OF st'] show ?thesis
    using st st' by simp
qed

text \<open>
  C10: called the way the network calls it (the flag \<open>deep\<close> computed from the name of the
  class) with one of the two classes, the stage builder returns a stage of \<open>max (1, c)\<close>
  blocks for every block count \<open>c\<close>, also for zero and for negative counts.
\<close>

theorem stage_block_count:
  assumes "own_class blk" "deep = (class_name blk = ''ResNetDeepBlock'')"
  shows "\<exists>c' st. create_residual_layer c blk oc cnt s deep = (c', Inr st) \<and>
                 length st = nat (max 1 cnt)"
  using assms by (auto simp add: own_class_def create_basic create_deep)

theorem stage_block_count_witness:
  "length (projr (snd (create_residual_layer 64 ResNetBlockClass 64 0 1 False))) = 1 \<and>
   length (projr (snd (create_residual_layer 64 ResNetDeepBlockClass 64 (- 5) 1 True))) = 1 \<and>
   length (projr (snd (create_residual_layer 64 ResNetDeepBlockClass 64 3 1 True))) = 3"
  using stage_block_count [of ResNetBlockClass False 64 64 0 1]
    stage_block_count [of ResNetDeepBlockClass True 64 64 "- 5" 1]
    stage_block_count [of ResNetDeepBlockClass True 64 64 3 1]
  by (auto simp add: own_class_def)

section \<open>Assembly\<close>

text \<open>
  C3: a network built from at least four block counts and one of the two block classes
  holds, in the order of its forward pass:
  \<^item> the stem: a 7x7 convolution of stride 2 from the input channels to 64, a
    normalisation, a 3x3 max-pooling of stride 2, an activation;
  \<^item> four stages of the widths 64, 128, 256, 512 and the strides 1, 2, 2, 2: the first
    block of each is built with that width and stride (and the projection the stage
    builder gives it), the later ones with the width and stride one; the stage takes the
    output channels of the one before it (64 from the stem) to its width times the
    expansion factor and divides each spatial axis by its stride;
  \<^item> average pooling to one cell;
  \<^item> a linear classifier from 2048 inputs for the deep class, 512 for the basic one, to
    \<open>num_classes\<close> outputs.
  The forward pass squeezes the pooled tensor before the classifier.
\<close>

theorem ResNet_assembly:
  assumes "4 \<le> length layers" "own_class blk"
  shows "\<exists>net.
     ResNet_init ic nc layers blk = Inr net \<and>
     initial_layers net = [Conv2d ic 64 7 2 3, BatchNorm2d 64, MaxPool2d 3 2 1, ReLU] \<and>
     (blk = ResNetBlockClass \<longrightarrow>
        layer_64 net = Basic (ResNetBlock_init 64 64 1 None) #
          replicate (nat (layers ! 0 - 1)) (Basic (ResNetBlock_init 64 64 1 None)) \<and>
        layer_128 net =
          Basic (ResNetBlock_init 64 128 2 (Some [Conv2d 64 128 1 2 0, BatchNorm2d 128])) #
          replicate (nat (layers ! 1 - 1)) (Basic (ResNetBlock_init 128 128 1 None)) \<and>
        layer_256 net =
          Basic (ResNetBlock_init 128 256 2 (Some [Conv2d 128 256 1 2 0, BatchNorm2d 256])) #
          replicate (nat (layers ! 2 - 1)) (Basic (ResNetBlock_init 256 256 1 None)) \<and>
        layer_512 net =
          Basic (ResNetBlock_init 256 512 2 (Some [Conv2d 256 512 1 2 0, BatchNorm2d 512])) #
          replicate (nat (layers ! 3 - 1)) (Basic (ResNetBlock_init 512 512 1 None))) \<and>
     (blk = ResNetDeepBlockClass \<longrightarrow>
        layer_64 net =
          Deep (ResNetDeepBlock_init 64 64 (Some [Conv2d 64 256 1 1 0, BatchNorm2d 256]) 1) #
          replicate (nat (layers ! 0 - 1)) (Deep (ResNetDeepBlock_init 256 64 None 1)) \<and>
        layer_128 net =
          Deep (ResNetDeepBlock_init 256 128 (Some [Conv2d 256 512 1 2 0, BatchNorm2d 512]) 2) #
          replicate (nat (layers ! 1 - 1)) (Deep (ResNetDeepBlock_init 512 128 None 1)) \<and>
        layer_256 net =
          Deep (ResNetDeepBlock_init 512 256
                  (Some [Conv2d 512 1024 1 2 0, BatchNorm2d 1024]) 2) #
          replicate (nat (layers ! 2 - 1)) (Deep (ResNetDeepBlock_init 1024 256 None 1)) \<and>
        layer_512 net =
          Deep (ResNetDeepBlock_init 1024 512
                  (Some [Conv2d 1024 2048 1 2 0, BatchNorm2d 2048]) 2) #
          replicate (nat (layers ! 3 - 1)) (Deep (ResNetDeepBlock_init 2048 512 None 1))) \<and>
     (\<forall>training n h w.
        0 < h \<and> 0 < w \<and> normalisable training n (strided h 2) (strided w 2) \<longrightarrow>
        shape_of training [n, 64, h, w] (stage_forward (layer_64 net) Input) =
          Inr [n, 64 * expansion_factor blk, h, w] \<and>
        shape_of training [n, 64 * expansion_factor blk, h, w]
            (stage_forward (layer_128 net) Input) =
          Inr [n, 128 * expansion_factor blk, strided h 2, strided w 2] \<and>
        shape_of training [n, 128 * expansion_factor blk, h, w]
            (stage_forward (layer_256 net) Input) =
          Inr [n, 256 * expansion_factor blk, strided h 2, strided w 2] \<and>
        shape_of training [n, 256 * expansion_factor blk, h, w]
            (stage_forward (layer_512 net) Input) =
          Inr [n, 512 * expansion_factor blk, strided h 2, strided w 2]) \<and>
     global_avg_pool net = AdaptiveAvgPool2d 1 1 \<and>
     fc net = Linear (if blk = ResNetDeepBlockClass then 2048 else 512) nc \<and>
     (\<forall>x. ResNet_forward net x =
        Apply (fc net) (Squeeze (Apply (global_avg_pool net)
          (stage_forward (layer_512 net) (stage_forward (layer_256 net)
            (stage_forward (layer_128 net) (stage_forward (layer_64 net)
              (Sequential (initial_layers net) x))))))))"
proof -
  from assms(2) consider "blk = ResNetBlockClass" | "blk = ResNetDeepBlockClass"
    by (auto simp add: own_class_def)
  then show ?thesis
  proof cases
    case 1
    have sh: "shape_of training [n, 64, h, w]
          (stage_forward (Basic (ResNetBlock_init 64 64 1 None) #
             replicate k0 (Basic (ResNetBlock_init 64 64 1 None))) Input) =
          Inr [n, 64, h, w] \<and>
        shape_of training [n, 64, h, w]
          (stage_forward
             (Basic (ResNetBlock_init 64 128 2 (Some [Conv2d 64 128 1 2 0, BatchNorm2d 128])) #
              replicate k1 (Basic (ResNetBlock_init 128 128 1 None))) Input) =
          Inr [n, 128, strided h 2, strided w 2] \<and>
        shape_of training [n, 128, h, w]
          (stage_forward
             (Basic (ResNetBlock_init 128 256 2 (Some [Conv2d 128 256 1 2 0, BatchNorm2d 256])) #
              replicate k2 (Basic (ResNetBlock_init 256 256 1 None))) Input) =
          Inr [n, 256, strided h 2, strided w 2] \<and>
        shape_of training [n, 256, h, w]
          (stage_forward
             (Basic (ResNetBlock_init 256 512 2 (Some [Conv2d 256 512 1 2 0, BatchNorm2d 512])) #
              replicate k3 (Basic (ResNetBlock_init 512 512 1 None))) Input) =
          Inr [n, 512, strided h 2, strided w 2]"
      if "0 < h" "0 < w" "normalisable training n (strided h 2) (strided w 2)"
      for training n h w k0 k1 k2 k3
    proof -
      have nz: "normalisable training n h w"
        by (rule normalisable_strided [OF that(3)])
      show ?thesis
        using basic_stage_shape [of training "[n, 64, h, w]" Input n 64 h w 1 k0]
          basic_stage_shape [of training "[n, 64, h, w]" Input n 128 h w 2 k1]
          basic_stage_shape [of training "[n, 128, h, w]" Input n 256 h w 2 k2]
          basic_stage_shape [of training "[n, 256, h, w]" Input n 512 h w 2 k3]
          that nz
        by (simp add: strided_one)
    qed
    from sh have "\<forall>training n h w k0 k1 k2 k3.
        0 < h \<and> 0 < w \<and> normalisable training n (strided h 2) (strided w 2) \<longrightarrow>
        shape_of training [n, 64, h, w]
          (stage_forward (Basic (ResNetBlock_init 64 64 1 None) #
             replicate k0 (Basic (ResNetBlock_init 64 64 1 None))) Input) =
          Inr [n, 64, h, w] \<and>
        shape_of training [n, 64, h, w]
          (stage_forward
             (Basic (ResNetBlock_init 64 128 2 (Some [Conv2d 64 128 1 2 0, BatchNorm2d 128])) #
              replicate k1 (Basic (ResNetBlock_init 128 128 1 None))) Input) =
          Inr [n, 128, strided h 2, strided w 2] \<and>
        shape_of training [n, 128, h, w]
          (stage_forward
             (Basic (ResNetBlock_init 128 256 2 (Some [Conv2d 128 256 1 2 0, BatchNorm2d 256])) #
              replicate k2 (Basic (ResNetBlock_init 256 256 1 None))) Input) =
          Inr [n, 256, strided h 2, strided w 2] \<and>
        shape_of training [n, 256, h, w]
          (stage_forward
             (Basic (ResNetBlock_init 256 512 2 (Some [Conv2d 256 512 1 2 0, BatchNorm2d 512])) #
              replicate k3 (Basic (ResNetBlock_init 512 512 1 None))) Input) =
          Inr [n, 512, strided h 2, strided w 2]"
      by blast
    then show ?thesis
      unfolding 1 ResNet_init_basic [OF assms(1)]
      by (simp add: ResNet_forward_def Let_def expansion_factor_def)
  next
    case 2
    have sh: "shape_of training [n, 64, h, w]
          (stage_forward
             (Deep (ResNetDeepBlock_init 64 64 (Some [Conv2d 64 256 1 1 0, BatchNorm2d 256]) 1) #
              replicate k0 (Deep (ResNetDeepBlock_init 256 64 None 1))) Input) =
          Inr [n, 256, h, w] \<and>
        shape_of training [n, 256, h, w]
          (stage_forward
             (Deep (ResNetDeepBlock_init 256 128
                      (Some [Conv2d 256 512 1 2 0, BatchNorm2d 512]) 2) #
              replicate k1 (Deep (ResNetDeepBlock_init 512 128 None 1))) Input) =
          Inr [n, 512, strided h 2, strided w 2] \<and>
        shape_of training [n, 512, h, w]
          (stage_forward
             (Deep (ResNetDeepBlock_init 512 256
                      (Some [Conv2d 512 1024 1 2 0, BatchNorm2d 1024]) 2) #
              replicate k2 (Deep (ResNetDeepBlock_init 1024 256 None 1))) Input) =
          Inr [n, 1024, strided h 2, strided w 2] \<and>
        shape_of training [n, 1024, h, w]
          (stage_forward
             (Deep (ResNetDeepBlock_init 1024 512
                      (Some [Conv2d 1024 2048 1 2 0, BatchNorm2d 2048]) 2) #
              replicate k3 (Deep (ResNetDeepBlock_init 2048 512 None 1))) Input) =
          Inr [n, 2048, strided h 2, strided w 2]"
      if "0 < h" "0 < w" "normalisable training n (strided h 2) (strided w 2)"
      for training n h w k0 k1 k2 k3
    proof -
      have nz: "normalisable training n h w"
        by (rule normalisable_strided [OF that(3)])
      show ?thesis
        using deep_stage_shape [of training "[n, 64, h, w]" Input n 64 h w 1 64 k0]
          deep_stage_shape [of training "[n, 256, h, w]" Input n 256 h w 2 128 k1]
          deep_stage_shape [of training "[n, 512, h, w]" Input n 512 h w 2 256 k2]
          deep_stage_shape [of training "[n, 1024, h, w]" Input n 1024 h w 2 512 k3]
          that nz
        by (simp add: strided_one)
    qed
    from sh have "\<forall>training n h w k0 k1 k2 k3.
        0 < h \<and> 0 < w \<and> normalisable training n (strided h 2) (strided w 2) \<longrightarrow>
        shape_of training [n, 64, h, w]
          (stage_forward
             (Deep (ResNetDeepBlock_init 64 64 (Some [Conv2d 64 256 1 1 0, BatchNorm2d 256]) 1) #
              replicate k0 (Deep (ResNetDeepBlock_init 256 64 None 1))) Input) =
          Inr [n, 256, h, w] \<and>
        shape_of training [n, 256, h, w]
          (stage_forward
             (Deep (ResNetDeepBlock_init 256 128
                      (Some [Conv2d 256 512 1 2 0, BatchNorm2d 512]) 2) #
              replicate k1 (Deep (ResNetDeepBlock_init 512 128 None 1))) Input) =
          Inr [n, 512, strided h 2, strided w 2] \<and>
        shape_of training [n, 512, h, w]
          (stage_forward
             (Deep (ResNetDeepBlock_init 512 256
                      (Some [Conv2d 512 1024 1 2 0, BatchNorm2d 1024]) 2) #
              replicate k2 (Deep (ResNetDeepBlock_init 1024 256 None 1))) Input) =
          Inr [n, 1024, strided h 2, strided w 2] \<and>
        shape_of training [n, 1024, h, w]
          (stage_forward
             (Deep (ResNetDeepBlock_init 1024 512
                      (Some [Conv2d 1024 2048 1 2 0, BatchNorm2d 2048]) 2) #
              replicate k3 (Deep (ResNetDeepBlock_init 2048 512 None 1))) Input) =
          Inr [n, 2048, strided h 2, strided w 2]"
      by blast
    then show ?thesis
      unfolding 2 ResNet_init_deep [OF assms(1)]
      by (simp add: ResNet_forward_def Let_def expansion_factor_def)
  qed
qed

theorem ResNet_assembly_witness:
  "layer_64 (projr (ResNet_init 3 36 [2, 2, 2, 2] ResNetBlockClass)) =
     [Basic (ResNetBlock_init 64 64 1 None), Basic (ResNetBlock_init 64 64 1 None)] \<and>
   layer_128 (projr (ResNet_init 3 36 [2, 2, 2, 2] ResNetBlockClass)) =
     [Basic (ResNetBlock_init 64 128 2 (Some [Conv2d 64 128 1 2 0, BatchNorm2d 128])),
      Basic (ResNetBlock_init 128 128 1 None)] \<and>
   shape_of True [16, 64, 56, 56]
     (stage_forward (layer_128 (projr (ResNet_init 3 36 [2, 2, 2, 2] ResNetBlockClass))) Input) =
     Inr [16, 128, 28, 28] \<and>
   fc (projr (ResNet_init 3 36 [2, 2, 2, 2] ResNetBlockClass)) = Linear 512 36 \<and>
   layer_512 (projr (ResNet_init 3 36 [3, 4, 6, 1] ResNetDeepBlockClass)) =
     [Deep (ResNetDeepBlock_init 1024 512 (Some [Conv2d 1024 2048 1 2 0, BatchNorm2d 2048]) 2)] \<and>
   shape_of True [16, 1024, 14, 14]
     (stage_forward (layer_512 (projr (ResNet_init 3 36 [3, 4, 6, 1] ResNetDeepBlockClass)))
        Input) =
     Inr [16, 2048, 7, 7] \<and>
   fc (projr (ResNet_init 3 36 [3, 4, 6, 1] ResNetDeepBlockClass)) = Linear 2048 36"
proof -
  have c: "own_class ResNetBlockClass" "own_class ResNetDeepBlockClass"
    by (simp_all add: own_class_def)
  obtain net where net: "ResNet_init 3 36 [2, 2, 2, 2] ResNetBlockClass = Inr net"
    and l64: "layer_64 net = Basic (ResNetBlock_init 64 64 1 None) #
          replicate (nat ([2, 2, 2, 2] ! 0 - 1)) (Basic (ResNetBlock_init 64 64 1 None))"
    and l128: "layer_128 net =
          Basic (ResNetBlock_init 64 128 2 (Some [Conv2d 64 128 1 2 0, BatchNorm2d 128])) #
          replicate (nat ([2, 2, 2, 2] ! 1 - 1)) (Basic (ResNetBlock_init 128 128 1 None))"
    and s128: "shape_of True [16, 64 * expansion_factor ResNetBlockClass, 56, 56]
            (stage_forward (layer_128 net) Input) =
          Inr [16, 128 * expansion_factor ResNetBlockClass, strided 56 2, strided 56 2]"
    and f: "fc net = Linear 512 36"
    using ResNet_assembly [of "[2, 2, 2, 2]" ResNetBlockClass 3 36] c
    by (auto simp add: normalisable_def)
  obtain net' where net': "ResNet_init 3 36 [3, 4, 6, 1] ResNetDeepBlockClass = Inr net'"
    and l512: "layer_512 net' =
          Deep (ResNetDeepBlock_init 1024 512
                  (Some [Conv2d 1024 2048 1 2 0, BatchNorm2d 2048]) 2) #
          replicate (nat ([3, 4, 6, 1] ! 3 - 1)) (Deep (ResNetDeepBlock_init 2048 512 None 1))"
    and s512: "shape_of True [16, 256 * expansion_factor ResNetDeepBlockClass, 14, 14]
            (stage_forward (layer_512 net') Input) =
          Inr [16, 512 * expansion_factor ResNetDeepBlockClass, strided 14 2, strided 14 2]"
    and f': "fc net' = Linear 2048 36"
    using ResNet_assembly [of "[3, 4, 6, 1]" ResNetDeepBlockClass 3 36] c
    by (auto simp add: normalisable_def)
  have e: "expansion_factor ResNetBlockClass = 1" "expansion_factor ResNetDeepBlockClass = 4"
    by (simp_all add: expansion_factor_def)
  have l64': "layer_64 net =
      [Basic (ResNetBlock_init 64 64 1 None), Basic (ResNetBlock_init 64 64 1 None)]"
    and l128': "layer_128 net =
      [Basic (ResNetBlock_init 64 128 2 (Some [Conv2d 64 128 1 2 0, BatchNorm2d 128])),
       Basic (ResNetBlock_init 128 128 1 None)]"
    and l512': "layer_512 net' =
      [Deep (ResNetDeepBlock_init 1024 512 (Some [Conv2d 1024 2048 1 2 0, BatchNorm2d 2048]) 2)]"
    using l64 l128 l512 by simp_all
  have s128': "shape_of True [16, 64, 56, 56] (stage_forward (layer_128 net) Input) =
      Inr [16, 128, 28, 28]"
    using s128 unfolding e by (simp add: strided_def)
  have s512': "shape_of True [16, 1024, 14, 14] (stage_forward (layer_512 net') Input) =
      Inr [16, 2048, 7, 7]"
    using s512 unfolding e by (simp add: strided_def)
  show ?thesis
    unfolding net net' sum.sel
    by (intro conjI l64' l128' s128' f l512' s512' f')
qed

section \<open>Block forward passes\<close>

text \<open>
  C4: the forward pass of the deep block is the 1x1 convolution to the intermediate width,
  normalisation, activation, the 3x3 convolution at the block's stride, normalisation,
  activation, the 1x1 convolution to four times the intermediate width, normalisation,
  the addition of the identity path, and the activation. When the identity path has the
  shape of the main path, an input of shape \<open>(n, i, h, w)\<close> that the normalisation layers
  accept gives an output with four times the intermediate width as channels and each
  spatial axis divided by the stride, rounded up.
\<close>

theorem ResNetDeepBlock_forward_sequence:
  "ResNetDeepBlock_forward (ResNetDeepBlock_init i m p s) x =
     Apply ReLU
       (IAdd
          (Apply (BatchNorm2d (m * 4)) (Apply (Conv2d m (m * 4) 1 1 0)
             (Apply ReLU (Apply (BatchNorm2d m) (Apply (Conv2d m m 3 s 1)
                (Apply ReLU (Apply (BatchNorm2d m) (Apply (Conv2d i m 1 1 0) x))))))))
          (identity_path p x)) \<and>
   (shape_of training sh x = Inr [n, i, h, w] \<and> 0 < h \<and> 0 < w \<and> 0 < s \<and> 0 < i \<and> 0 < m \<and>
    normalisable training n (strided h s) (strided w s) \<and>
    shape_of training sh (identity_path p x) = Inr [n, m * 4, strided h s, strided w s] \<longrightarrow>
    shape_of training sh (ResNetDeepBlock_forward (ResNetDeepBlock_init i m p s) x) =
      Inr [n, m * 4, strided h s, strided w s])"
  using ResNetDeepBlock_unfolded [of i m p s x]
    ResNetDeepBlock_shape [of training sh x n i h w s m p]
  by blast

theorem ResNetDeepBlock_forward_sequence_witness:
  "shape_of True [16, 256, 56, 56]
     (ResNetDeepBlock_forward
        (ResNetDeepBlock_init 256 128 (Some [Conv2d 256 512 1 2 0, BatchNorm2d 512]) 2) Input) =
   Inr [16, 512, 28, 28]"
proof -
  have idp: "shape_of True [16, 256, 56, 56]
      (identity_path (Some [Conv2d 256 512 1 2 0, BatchNorm2d 512]) Input) =
      Inr [16, 128 * 4, strided 56 2, strided 56 2]"
    by (simp add: identity_path_def Sequential_def window_out_def strided_def)
  have "shape_of True [16, 256, 56, 56]
      (ResNetDeepBlock_forward
         (ResNetDeepBlock_init 256 128 (Some [Conv2d 256 512 1 2 0, BatchNorm2d 512]) 2) Input) =
      Inr [16, 128 * 4, strided 56 2, strided 56 2]"
    by (rule ResNetDeepBlock_forward_sequence [THEN conjunct2, rule_format])
      (use idp in \<open>simp add: normalisable_def strided_def\<close>)
  then show ?thesis by (simp add: strided_def)
qed

text \<open>
  C5: the forward pass of the basic block is a 3x3 convolution at the block's stride,
  normalisation and activation, then a 3x3 convolution of stride one and normalisation
  with no activation; the input, itself or through the projection when there is one, is
  added to that, and the activation is applied to the sum. (A projection that is an empty
  \<open>nn.Sequential\<close> is false as a truth value and skipped, which changes nothing.)
\<close>

theorem ResNetBlock_forward_sequence:
  "ResNetBlock_forward (ResNetBlock_init i oc s p) x =
     Apply ReLU
       (IAdd
          (Apply (BatchNorm2d oc) (Apply (Conv2d oc oc 3 1 1)
             (Apply ReLU (Apply (BatchNorm2d oc) (Apply (Conv2d i oc 3 s 1) x)))))
          (case p of None \<Rightarrow> x | Some ds \<Rightarrow> Sequential ds x))"
  using ResNetBlock_unfolded [of i oc s p x] by (simp add: identity_path_def)

theorem ResNetBlock_forward_sequence_witness:
  "ResNetBlock_forward
     (ResNetBlock_init 64 128 2 (Some [Conv2d 64 128 1 2 0, BatchNorm2d 128])) Input =
     Apply ReLU
       (IAdd
          (Apply (BatchNorm2d 128) (Apply (Conv2d 128 128 3 1 1)
             (Apply ReLU (Apply (BatchNorm2d 128) (Apply (Conv2d 64 128 3 2 1) Input)))))
          (Apply (BatchNorm2d 128) (Apply (Conv2d 64 128 1 2 0) Input))) \<and>
   ResNetBlock_forward (ResNetBlock_init 64 64 1 None) Input =
     Apply ReLU
       (IAdd
          (Apply (BatchNorm2d 64) (Apply (Conv2d 64 64 3 1 1)
             (Apply ReLU (Apply (BatchNorm2d 64) (Apply (Conv2d 64 64 3 1 1) Input)))))
          Input)"
  using ResNetBlock_forward_sequence
      [of 64 128 2 "Some [Conv2d 64 128 1 2 0, BatchNorm2d 128]" Input]
    ResNetBlock_forward_sequence [of 64 64 1 None Input]
  by (simp add: Sequential_def)

text \<open>
  A block built without a projection does not always fail at the addition, in either
  mode. With one input channel the identity is broadcast over the 64 output channels, and
  on a 1x1 image a block of stride two has equal shapes on both paths.
\<close>

theorem block_without_projection_counterexample:
  "shape_of True [2, 1, 8, 8] (ResNetBlock_forward (ResNetBlock_init 1 64 1 None) Input) =
     Inr [2, 64, 8, 8] \<and>
   shape_of False [2, 1, 8, 8] (ResNetBlock_forward (ResNetBlock_init 1 64 1 None) Input) =
     Inr [2, 64, 8, 8] \<and>
   shape_of True [2, 64, 1, 1] (ResNetBlock_forward (ResNetBlock_init 64 64 2 None) Input) =
     Inr [2, 64, 1, 1] \<and>
   shape_of False [2, 64, 1, 1] (ResNetBlock_forward (ResNetBlock_init 64 64 2 None) Input) =
     Inr [2, 64, 1, 1]"
  by (simp add: ResNetBlock_unfolded identity_path_def window_out_def iadd_shape_def
      broadcastable_to_def)

text \<open>
  C6, as it holds of the code: a block of either class built without a projection, with
  positive channel counts, and called on an input of shape \<open>(n, i, h, w)\<close> with
  \<open>h, w \<ge> 1\<close> that its normalisation layers accept (in training mode, more than one
  value per channel after the stride) fails at the addition of the two paths, the library
  refusing the shapes, when the stride is 2 and the image is larger than 1x1, or when the
  stride is positive and the input channel count \<open>i\<close> is neither one nor the block's
  output channel count.
\<close>

theorem block_without_projection_fails:
  assumes "0 < h" "0 < w" "0 < i" "normalisable training n (strided h s) (strided w s)"
  shows "(0 < oc \<and> (s = 2 \<and> (2 \<le> h \<or> 2 \<le> w) \<or> 0 < s \<and> i \<noteq> 1 \<and> i \<noteq> oc) \<longrightarrow>
          shape_of training [n, i, h, w]
            (ResNetBlock_forward (ResNetBlock_init i oc s None) Input) =
          Inl (MergeShapeError [n, oc, strided h s, strided w s] [n, i, h, w])) \<and>
         (0 < m \<and> (s = 2 \<and> (2 \<le> h \<or> 2 \<le> w) \<or> 0 < s \<and> i \<noteq> 1 \<and> i \<noteq> m * 4) \<longrightarrow>
          shape_of training [n, i, h, w]
            (ResNetDeepBlock_forward (ResNetDeepBlock_init i m None s) Input) =
          Inl (MergeShapeError [n, m * 4, strided h s, strided w s] [n, i, h, w]))"
proof (intro conjI impI)
  assume a: "0 < oc \<and> (s = 2 \<and> (2 \<le> h \<or> 2 \<le> w) \<or> 0 < s \<and> i \<noteq> 1 \<and> i \<noteq> oc)"
  then have "0 < s" "0 < oc" "2 \<le> s \<and> (2 \<le> h \<or> 2 \<le> w) \<or> i \<noteq> 1 \<and> i \<noteq> oc"
    by auto
  with assms show "shape_of training [n, i, h, w]
      (ResNetBlock_forward (ResNetBlock_init i oc s None) Input) =
      Inl (MergeShapeError [n, oc, strided h s, strided w s] [n, i, h, w])"
    by (intro basic_no_projection_fails)
next
  assume a: "0 < m \<and> (s = 2 \<and> (2 \<le> h \<or> 2 \<le> w) \<or> 0 < s \<and> i \<noteq> 1 \<and> i \<noteq> m * 4)"
  then have "0 < s" "0 < m" "2 \<le> s \<and> (2 \<le> h \<or> 2 \<le> w) \<or> i \<noteq> 1 \<and> i \<noteq> m * 4"
    by auto
  with assms show "shape_of training [n, i, h, w]
      (ResNetDeepBlock_forward (ResNetDeepBlock_init i m None s) Input) =
      Inl (MergeShapeError [n, m * 4, strided h s, strided w s] [n, i, h, w])"
    by (intro deep_no_projection_fails)
qed

theorem block_without_projection_fails_witness:
  "shape_of True [16, 64, 56, 56] (ResNetBlock_forward (ResNetBlock_init 64 64 2 None) Input) =
     Inl (MergeShapeError [16, 64, 28, 28] [16, 64, 56, 56]) \<and>
   shape_of True [16, 64, 56, 56]
     (ResNetDeepBlock_forward (ResNetDeepBlock_init 64 64 None 2) Input) =
     Inl (MergeShapeError [16, 256, 28, 28] [16, 64, 56, 56])"
  using block_without_projection_fails [of 56 56 64 True 16 2 64 64]
  by (simp add: strided_def normalisable_def)

section \<open>Construction errors\<close>







end
